theory Spec2Isabelle
  imports Complex_Main
begin

section \<open>Volume take-off from an IFC model: data model\<close>

text \<open>
  The development follows \<^verbatim>\<open>nen2580_inhoud_excel.py\<close>. Python floats are idealised as
  rationals: \<open>+\<close>, \<open>*\<close>, \<open>/\<close>, \<open>abs\<close> and the comparisons are exact, and \<open>round(x, 3)\<close> is
  rounding of the exact value to three decimals, ties to even. Exceptions are values of the
  type \<open>exn\<close>; a \<^verbatim>\<open>try\<close> block is a computation whose result may be a raised exception,
  and the \<^verbatim>\<open>except\<close> clause is the case distinction on it.
\<close>

datatype exn =
  AttributeError | ValueError | TypeError | IndexError | OverflowError | QhullError
  | FileNotFoundError | PermissionError

text \<open>
  What a \<^verbatim>\<open>try\<close> body does inside a loop: it raises, it leaves the function with
  \<^verbatim>\<open>return\<close>, or it runs to its end and the loop goes on.
\<close>

datatype 'a outcome = Raised exn | Returned 'a | Continue

text \<open>
  The value of a numeric attribute as the resolver sees it: the attribute does not exist
  (\<^verbatim>\<open>hasattr\<close> is false, reading it raises), it is \<^verbatim>\<open>None\<close>, it holds a number, or
  it holds something \<^verbatim>\<open>float()\<close> rejects (a label, an object).
\<close>

datatype pyval = Missing | PyNone | Num rat | NonNum

text \<open>A quantity of a quantity set or a property of a property set (duck-typed alike).\<close>

record item =
  item_type :: string
  item_Name :: "string option"
  VolumeValue :: pyval
  NominalValue :: pyval

text \<open>The relating definition of a relationship: a quantity set, a property set or other.\<close>

record propdef =
  def_type :: string
  Quantities :: "item list option"
  HasProperties :: "item list option"

record ifc_rel =
  RelatingPropertyDefinition :: "propdef option"

record entity =
  GlobalId :: string
  Name :: "string option"
  IsDefinedBy :: "ifc_rel list option"
  IsExternal :: "bool option"

record model =
  by_type :: "string \<Rightarrow> entity list"

section \<open>Quantity resolver\<close>

definition lower_char :: "char \<Rightarrow> char" where
  "lower_char c =
     (let n = (of_char c :: nat) in if 65 \<le> n \<and> n \<le> 90 then char_of (n + 32) else c)"

text \<open>
  \<^verbatim>\<open>str.lower\<close> on the ASCII letters; every other byte is kept. For the candidate names
  of this program that is exact: they are ASCII without the letter k, and lowering a
  character outside ASCII gives a character outside ASCII or, for the Kelvin sign, a k.
\<close>

definition lower :: "string \<Rightarrow> string" where
  "lower s = map lower_char s"

text \<open>
  \<^verbatim>\<open>x.Name in names or x.Name.lower() in [n.lower() for n in names]\<close>: a name that is
  \<^verbatim>\<open>None\<close> is not in the tuple, and \<^verbatim>\<open>None.lower()\<close> raises.
\<close>

fun name_matches :: "string list \<Rightarrow> string option \<Rightarrow> exn + bool" where
  "name_matches names None = Inl AttributeError"
| "name_matches names (Some s) = Inr (s \<in> set names \<or> lower s \<in> set (map lower names))"

text \<open>\<^verbatim>\<open>float(q.VolumeValue)\<close>, reached only when the attribute exists and is not \<^verbatim>\<open>None\<close>.\<close>

fun py_float :: "pyval \<Rightarrow> exn + rat" where
  "py_float (Num r) = Inr r"
| "py_float NonNum = Inl ValueError"
| "py_float PyNone = Inl TypeError"
| "py_float Missing = Inl AttributeError"

text \<open>\<^verbatim>\<open>float(x.NominalValue.wrappedValue)\<close>.\<close>

fun nominal_float :: "pyval \<Rightarrow> exn + rat" where
  "nominal_float (Num r) = Inr r"
| "nominal_float NonNum = Inl ValueError"
| "nominal_float PyNone = Inl AttributeError"
| "nominal_float Missing = Inl AttributeError"

text \<open>The loop over the quantities of an \<^verbatim>\<open>IfcElementQuantity\<close> (source lines 62 to 70).\<close>

fun scan_quantities :: "string list \<Rightarrow> item list \<Rightarrow> rat outcome" where
  "scan_quantities names [] = Continue"
| "scan_quantities names (q # qs) =
     (if item_type q = ''IfcQuantityVolume'' then
        (case name_matches names (item_Name q) of
           Inl e \<Rightarrow> Raised e
         | Inr False \<Rightarrow> scan_quantities names qs
         | Inr True \<Rightarrow>
             (if VolumeValue q \<noteq> Missing \<and> VolumeValue q \<noteq> PyNone then
                (case py_float (VolumeValue q) of Inl e \<Rightarrow> Raised e | Inr v \<Rightarrow> Returned v)
              else
                (case nominal_float (NominalValue q) of
                   Inr v \<Rightarrow> Returned v
                 | Inl _ \<Rightarrow> scan_quantities names qs)))
      else scan_quantities names qs)"

text \<open>The loop over the properties of an \<^verbatim>\<open>IfcPropertySet\<close> (source lines 73 to 78).\<close>

fun scan_properties :: "string list \<Rightarrow> item list \<Rightarrow> rat outcome" where
  "scan_properties names [] = Continue"
| "scan_properties names (p # ps) =
     (case name_matches names (item_Name p) of
        Inl e \<Rightarrow> Raised e
      | Inr False \<Rightarrow> scan_properties names ps
      | Inr True \<Rightarrow>
          (case nominal_float (NominalValue p) of
             Inr v \<Rightarrow> Returned v
           | Inl _ \<Rightarrow> scan_properties names ps))"

definition or_empty :: "'a list option \<Rightarrow> 'a list" where
  "or_empty xs = (case xs of None \<Rightarrow> [] | Some ys \<Rightarrow> ys)"

text \<open>The two \<^verbatim>\<open>if rpd.is_a(...)\<close> blocks for one relating definition, in source order.\<close>

definition scan_definition :: "string list \<Rightarrow> propdef \<Rightarrow> rat outcome" where
  "scan_definition names rpd =
     (case (if def_type rpd = ''IfcElementQuantity''
            then scan_quantities names (or_empty (Quantities rpd)) else Continue) of
        Raised e \<Rightarrow> Raised e
      | Returned v \<Rightarrow> Returned v
      | Continue \<Rightarrow>
          (if def_type rpd = ''IfcPropertySet''
           then scan_properties names (or_empty (HasProperties rpd)) else Continue))"

text \<open>The loop over \<^verbatim>\<open>obj.IsDefinedBy\<close> (source lines 56 to 78).\<close>

fun scan_rels :: "string list \<Rightarrow> ifc_rel list \<Rightarrow> rat outcome" where
  "scan_rels names [] = Continue"
| "scan_rels names (r # rs) =
     (case RelatingPropertyDefinition r of
        None \<Rightarrow> scan_rels names rs
      | Some rpd \<Rightarrow>
          (case scan_definition names rpd of
             Raised e \<Rightarrow> Raised e
           | Returned v \<Rightarrow> Returned v
           | Continue \<Rightarrow> scan_rels names rs))"

text \<open>
  The resolver: the body above inside \<^verbatim>\<open>try\<close>, with \<^verbatim>\<open>except Exception: return None\<close>
  around all of it. \<open>None\<close> is "absent".
\<close>

definition get_quantity_volume_from_obj :: "entity \<Rightarrow> string list \<Rightarrow> rat option" where
  "get_quantity_volume_from_obj obj names =
     (case IsDefinedBy obj of
        None \<Rightarrow> None
      | Some rels \<Rightarrow>
          (if rels = [] then None
           else (case scan_rels names rels of
                   Raised e \<Rightarrow> None
                 | Returned v \<Rightarrow> Some v
                 | Continue \<Rightarrow> None)))"

section \<open>Capabilities and external collaborators\<close>

type_synonym vertex = "rat \<times> rat \<times> rat"

text \<open>
  What \<^verbatim>\<open>shape.geometry\<close> offers: flat vertex coordinates, and triangle indices under
  \<^verbatim>\<open>faces\<close> (flat), under \<^verbatim>\<open>simplices\<close> (rows), or under neither name.
\<close>

datatype facesrc = Faces "int list" | Simplices "int list list" | NoFaces

record geometry =
  verts :: "rat list"
  faces_attr :: facesrc

record shape =
  geometry :: "geometry option"

text \<open>
  The capability flags set at import time, and the three libraries as functions:
  \<open>create_shape\<close> is \<^verbatim>\<open>ifcopenshell.geom.create_shape(settings, e)\<close>, \<open>trimesh_volume\<close> is
  \<^verbatim>\<open>trimesh.Trimesh(vertices, faces, process=True).volume\<close> and \<open>hull_volume\<close> is
  \<^verbatim>\<open>ConvexHull(verts).volume\<close>; each may raise.
\<close>

record env =
  HAS_GEOM :: bool
  HAS_TRIMESH :: bool
  HAS_SCIPY :: bool
  create_shape :: "entity \<Rightarrow> exn + shape"
  trimesh_volume :: "vertex list \<Rightarrow> int list list \<Rightarrow> exn + rat"
  hull_volume :: "vertex list \<Rightarrow> exn + rat"

section \<open>Meshes\<close>

text \<open>\<^verbatim>\<open>reshape(-1, 3)\<close> of a flat array: rows of three, or ValueError.\<close>

fun reshape3 :: "'a list \<Rightarrow> exn + ('a \<times> 'a \<times> 'a) list" where
  "reshape3 [] = Inr []"
| "reshape3 (a # b # c # xs) =
     (case reshape3 xs of Inl e \<Rightarrow> Inl e | Inr rows \<Rightarrow> Inr ((a, b, c) # rows))"
| "reshape3 _ = Inl ValueError"

definition row3 :: "'a \<times> 'a \<times> 'a \<Rightarrow> 'a list" where
  "row3 t = (case t of (a, b, c) \<Rightarrow> [a, b, c])"

text \<open>What \<^verbatim>\<open>np.array(..., dtype=np.int64)\<close> accepts; a larger integer raises OverflowError.\<close>

definition in_int64 :: "int \<Rightarrow> bool" where
  "in_int64 i = (- (2 ^ 63) \<le> i \<and> i < 2 ^ 63)"

text \<open>The \<^verbatim>\<open>try\<close> body of \<^verbatim>\<open>shape_to_mesh\<close> (source lines 85 to 95).\<close>

definition shape_to_mesh_body :: "shape \<Rightarrow> exn + (vertex list \<times> int list list)" where
  "shape_to_mesh_body sh =
     (case geometry sh of
        None \<Rightarrow> Inl AttributeError
      | Some geom \<Rightarrow>
          (case reshape3 (verts geom) of
             Inl e \<Rightarrow> Inl e
           | Inr vs \<Rightarrow>
               (case faces_attr geom of
                  Faces fs \<Rightarrow>
                    (if \<not> list_all in_int64 fs then Inl OverflowError
                     else
                       (case reshape3 fs of
                          Inl e \<Rightarrow> Inl e
                        | Inr rows \<Rightarrow> Inr (vs, map row3 rows)))
                | Simplices ss \<Rightarrow>
                    (if \<not> list_all (\<lambda>r. length r = length (hd ss)) ss then Inl ValueError
                     else if \<not> list_all (list_all in_int64) ss then Inl OverflowError
                     else Inr (vs, ss))
                | NoFaces \<Rightarrow>
                    (case reshape3 (map int [0..<length vs]) of
                       Inl e \<Rightarrow> Inl e
                     | Inr rows \<Rightarrow> Inr (vs, map row3 rows)))))"

text \<open>Any exception gives the empty mesh.\<close>

definition shape_to_mesh :: "shape \<Rightarrow> vertex list \<times> int list list" where
  "shape_to_mesh sh = (case shape_to_mesh_body sh of Inl e \<Rightarrow> ([], []) | Inr m \<Rightarrow> m)"

text \<open>Indexing as numpy does it: a negative index counts from the end, out of range raises.\<close>

definition np_index :: "'a list \<Rightarrow> int \<Rightarrow> exn + 'a" where
  "np_index xs i =
     (let n = int (length xs) in
      if 0 \<le> i \<and> i < n then Inr (xs ! nat i)
      else if - n \<le> i \<and> i < 0 then Inr (xs ! nat (n + i))
      else Inl IndexError)"

definition cross :: "vertex \<Rightarrow> vertex \<Rightarrow> vertex" where
  "cross b c =
     (case (b, c) of ((b1, b2, b3), (c1, c2, c3)) \<Rightarrow>
        (b2 * c3 - b3 * c2, b3 * c1 - b1 * c3, b1 * c2 - b2 * c1))"

definition dot :: "vertex \<Rightarrow> vertex \<Rightarrow> rat" where
  "dot a b = (case (a, b) of ((a1, a2, a3), (b1, b2, b3)) \<Rightarrow> a1 * b1 + a2 * b2 + a3 * b3)"

text \<open>\<^verbatim>\<open>verts[f[0] ], verts[f[1] ], verts[f[2] ]\<close> for one face row.\<close>

definition and_then :: "exn + 'a \<Rightarrow> ('a \<Rightarrow> exn + 'b) \<Rightarrow> exn + 'b" where
  "and_then r k = (case r of Inl e \<Rightarrow> Inl e | Inr x \<Rightarrow> k x)"

definition face_vertices :: "vertex list \<Rightarrow> int list \<Rightarrow> exn + (vertex \<times> vertex \<times> vertex)" where
  "face_vertices vs f =
     and_then (np_index f 0) (\<lambda>i0. and_then (np_index vs i0) (\<lambda>a.
     and_then (np_index f 1) (\<lambda>i1. and_then (np_index vs i1) (\<lambda>b.
     and_then (np_index f 2) (\<lambda>i2. and_then (np_index vs i2) (\<lambda>c. Inr (a, b, c)))))))"

text \<open>The loop of the signed-volume tier, with its accumulator \<open>v\<close>.\<close>

fun signed_sum :: "vertex list \<Rightarrow> int list list \<Rightarrow> rat \<Rightarrow> exn + rat" where
  "signed_sum vs [] v = Inr v"
| "signed_sum vs (f # fs) v =
     (case face_vertices vs f of
        Inl e \<Rightarrow> Inl e
      | Inr (a, b, c) \<Rightarrow> signed_sum vs fs (v + dot a (cross b c) / 6))"

text \<open>\<^verbatim>\<open>try: ... except Exception: pass\<close>\<close>

definition try_pass :: "'a outcome \<Rightarrow> 'a outcome" where
  "try_pass body = (case body of Raised e \<Rightarrow> Continue | r \<Rightarrow> r)"

text \<open>The three \<^verbatim>\<open>try\<close> bodies of \<^verbatim>\<open>volume_from_mesh\<close>.\<close>

definition trimesh_block :: "env \<Rightarrow> vertex list \<Rightarrow> int list list \<Rightarrow> rat outcome" where
  "trimesh_block env vs fs =
     (case trimesh_volume env vs fs of
        Inl e \<Rightarrow> Raised e
      | Inr mv \<Rightarrow> if mv > 0 then Returned mv else Continue)"

definition signed_block :: "vertex list \<Rightarrow> int list list \<Rightarrow> rat outcome" where
  "signed_block vs fs =
     (case signed_sum vs fs 0 of
        Inl e \<Rightarrow> Raised e
      | Inr s \<Rightarrow> (let v = \<bar>s\<bar> in if v > 0 then Returned v else Continue))"

text \<open>Column minima and maxima; numpy raises on an array without rows.\<close>

fun bbox_volume :: "vertex list \<Rightarrow> exn + rat" where
  "bbox_volume [] = Inl ValueError"
| "bbox_volume (p # ps) =
     (let xs = map fst (p # ps); ys = map (fst \<circ> snd) (p # ps); zs = map (snd \<circ> snd) (p # ps);
          ext = (\<lambda>cs. fold max (tl cs) (hd cs) - fold min (tl cs) (hd cs))
      in Inr (ext xs * ext ys * ext zs))"

definition volume_from_mesh :: "env \<Rightarrow> vertex list \<Rightarrow> int list list \<Rightarrow> exn + rat" where
  "volume_from_mesh env vs fs =
     (if length vs = 0 \<or> length fs = 0 then Inr 0
      else
        (case (if HAS_TRIMESH env then try_pass (trimesh_block env vs fs) else Continue) of
           Raised e \<Rightarrow> Inl e
         | Returned v \<Rightarrow> Inr v
         | Continue \<Rightarrow>
             (case try_pass (signed_block vs fs) of
                Raised e \<Rightarrow> Inl e
              | Returned v \<Rightarrow> Inr v
              | Continue \<Rightarrow>
                  (case bbox_volume vs of Inl e \<Rightarrow> Inr 0 | Inr v \<Rightarrow> Inr v))))"

section \<open>Net volume aggregator\<close>

text \<open>
  A string is the list of the UTF-8 bytes of the Python \<^verbatim>\<open>str\<close>. The characters that
  \<^verbatim>\<open>str.isspace\<close> accepts, each as its bytes: U+0009 to U+000D, U+001C to U+0020, U+0085,
  U+00A0, U+1680, U+2000 to U+200A, U+2028, U+2029, U+202F, U+205F and U+3000.
\<close>

definition ws_seqs :: "string list" where
  "ws_seqs =
     map (\<lambda>n. [char_of n]) ([9..<14] @ [28..<33 :: nat])
     @ [ [CHR 0xC2, CHR 0x85], [CHR 0xC2, CHR 0xA0], [CHR 0xE1, CHR 0x9A, CHR 0x80] ]
     @ map (\<lambda>n. [CHR 0xE2, CHR 0x80, char_of n]) [128..<139 :: nat]
     @ [ [CHR 0xE2, CHR 0x80, CHR 0xA8], [CHR 0xE2, CHR 0x80, CHR 0xA9],
         [CHR 0xE2, CHR 0x80, CHR 0xAF], [CHR 0xE2, CHR 0x81, CHR 0x9F],
         [CHR 0xE3, CHR 0x80, CHR 0x80] ]"

text \<open>The number of bytes of the white-space character at the head of \<open>s\<close>, or 0.\<close>

definition ws_len :: "string list \<Rightarrow> string \<Rightarrow> nat" where
  "ws_len seqs s =
     (case filter (\<lambda>w. take (length w) s = w) seqs of [] \<Rightarrow> 0 | w # ws \<Rightarrow> length w)"

text \<open>Dropping the leading white space; \<open>k\<close> counts the bytes of a character still to drop.\<close>

fun lstrip :: "string list \<Rightarrow> nat \<Rightarrow> string \<Rightarrow> string" where
  "lstrip seqs k [] = []"
| "lstrip seqs (Suc k) (c # cs) = lstrip seqs k cs"
| "lstrip seqs 0 (c # cs) =
     (case ws_len seqs (c # cs) of 0 \<Rightarrow> c # cs | Suc n \<Rightarrow> lstrip seqs n cs)"

text \<open>\<^verbatim>\<open>str.strip()\<close>: the trailing white space is the leading one of the reversed bytes.\<close>

definition strip :: "string \<Rightarrow> string" where
  "strip s = rev (lstrip (map rev ws_seqs) 0 (rev (lstrip ws_seqs 0 s)))"

text \<open>\<^verbatim>\<open>round(x, 3)\<close> on the exact value: nearest multiple of 1/1000, ties to even.\<close>

definition round3 :: "rat \<Rightarrow> rat" where
  "round3 x =
     (let y = x * 1000; f = \<lfloor>y\<rfloor>; d = y - of_int f
      in of_int (if d < 1 / 2 then f else if 1 / 2 < d then f + 1
                 else if even f then f else f + 1) / 1000)"

record space_row =
  IfcType :: string
  Naam :: string
  row_GlobalId :: string
  Netto_m3 :: rat
  Methode :: string

text \<open>\<^verbatim>\<open>(sp.Name or "").strip() or sp.GlobalId\<close>\<close>

definition display_name :: "entity \<Rightarrow> string" where
  "display_name sp =
     (let s = strip (case Name sp of None \<Rightarrow> [] | Some n \<Rightarrow> n) in if s = [] then GlobalId sp else s)"

text \<open>The \<^verbatim>\<open>try\<close> block of source lines 146 to 159, with its \<^verbatim>\<open>except\<close> clause.\<close>

definition tessellate_space :: "env \<Rightarrow> entity \<Rightarrow> rat \<times> string" where
  "tessellate_space env sp =
     (case create_shape env sp of
        Inl e \<Rightarrow> (0, ''Unavail'')
      | Inr sh \<Rightarrow>
          (case shape_to_mesh sh of (v, f) \<Rightarrow>
             if length v > 0 \<and> length f > 0 then
               (case volume_from_mesh env v f of
                  Inl e \<Rightarrow> (0, ''Unavail'')
                | Inr vol \<Rightarrow> (vol, ''Geometry(mesh)''))
             else (0, ''Unavail'')))"

definition net_names :: "string list" where
  "net_names = [''NetVolume'', ''Volume'']"

text \<open>Volume and method of one space (source lines 138 to 162).\<close>

definition resolve_space :: "env \<Rightarrow> entity \<Rightarrow> rat \<times> string" where
  "resolve_space env sp =
     (let vol = get_quantity_volume_from_obj sp net_names;
          method = (if vol \<noteq> None then ''Quantity(Net/Volume)'' else ''Geometry(mesh)'')
      in case vol of
           Some v \<Rightarrow> (v, method)
         | None \<Rightarrow> if HAS_GEOM env then tessellate_space env sp else (0, ''Unavail''))"

text \<open>One pass of the loop body: the state is \<open>(net_total, rows)\<close>.\<close>

definition space_step :: "env \<Rightarrow> rat \<times> space_row list \<Rightarrow> entity \<Rightarrow> rat \<times> space_row list" where
  "space_step env st sp =
     (case st of (net_total, rows) \<Rightarrow>
      case resolve_space env sp of (vol, method) \<Rightarrow>
        (net_total + vol,
         rows @ [\<lparr>IfcType = ''IfcSpace'', Naam = display_name sp, row_GlobalId = GlobalId sp,
                  Netto_m3 = round3 vol, Methode = method\<rparr>]))"

definition compute_net_volume_spaces :: "env \<Rightarrow> model \<Rightarrow> rat \<times> space_row list" where
  "compute_net_volume_spaces env m = foldl (space_step env) (0, []) (by_type m ''IfcSpace'')"

section \<open>Gross volume estimator\<close>

definition gross_names :: "string list" where
  "gross_names = [''GrossVolume'', ''BrutoInhoud'', ''Volume'']"

text \<open>The first loop: the first building whose quantity is not \<^verbatim>\<open>None\<close> ends the function.\<close>

fun building_quantity :: "entity list \<Rightarrow> rat option" where
  "building_quantity [] = None"
| "building_quantity (b # bs) =
     (case get_quantity_volume_from_obj b gross_names of
        Some q \<Rightarrow> Some q
      | None \<Rightarrow> building_quantity bs)"

text \<open>The second loop; its state is \<open>(gross_sum, had)\<close>.\<close>

definition storey_step :: "rat \<times> bool \<Rightarrow> entity \<Rightarrow> rat \<times> bool" where
  "storey_step st e =
     (case get_quantity_volume_from_obj e gross_names of
        Some q \<Rightarrow> (fst st + q, True)
      | None \<Rightarrow> st)"

definition storey_sum :: "entity list \<Rightarrow> rat \<times> bool" where
  "storey_sum sts = foldl storey_step (0, False) sts"

text \<open>The local function \<^verbatim>\<open>add\<close>: \<open>verts_all\<close> is the list it appends to.\<close>

definition add :: "env \<Rightarrow> vertex list list \<Rightarrow> entity \<Rightarrow> vertex list list" where
  "add env verts_all e =
     (case create_shape env e of
        Inl ex \<Rightarrow> verts_all
      | Inr sh \<Rightarrow>
          (let v = fst (shape_to_mesh sh) in
           if length v \<noteq> 0 then verts_all @ [v] else verts_all))"

definition add_wall :: "env \<Rightarrow> vertex list list \<Rightarrow> entity \<Rightarrow> vertex list list" where
  "add_wall env verts_all w =
     (if IsExternal w = Some True \<or> IsExternal w = None then add env verts_all w else verts_all)"

definition collect_building_vertices :: "env \<Rightarrow> model \<Rightarrow> vertex list" where
  "collect_building_vertices env m =
     (if \<not> HAS_GEOM env then []
      else
        (let a1 = foldl (add_wall env) [] (by_type m ''IfcWallStandardCase'');
             a2 = foldl (add_wall env) a1 (by_type m ''IfcWall'');
             a3 = foldl (add env) a2 (by_type m ''IfcSlab'');
             a4 = foldl (add env) a3 (by_type m ''IfcRoof'')
         in if a4 = [] then [] else concat a4))"

text \<open>The hull \<^verbatim>\<open>try\<close> body (source lines 218 to 220).\<close>

definition hull_block :: "env \<Rightarrow> vertex list \<Rightarrow> rat outcome" where
  "hull_block env vs =
     (case hull_volume env vs of
        Inl e \<Rightarrow> Raised e
      | Inr hv \<Rightarrow> if hv > 0 then Returned hv else Continue)"

text \<open>The bytes of the capital sigma of the storey tag and of the summary header.\<close>

definition sigma :: string where
  "sigma = [CHR 0xCE, CHR 0xA3]"

text \<open>Source lines 213 to 225; the bounding box is computed outside any \<^verbatim>\<open>try\<close>.\<close>

definition geometry_tier :: "env \<Rightarrow> model \<Rightarrow> exn + (rat \<times> string)" where
  "geometry_tier env m =
     (let vs = collect_building_vertices env m in
      if length vs \<noteq> 0 then
        (case (if HAS_SCIPY env then try_pass (hull_block env vs) else Continue) of
           Raised e \<Rightarrow> Inl e
         | Returned hv \<Rightarrow> Inr (hv, ''ConvexHull(external)'')
         | Continue \<Rightarrow>
             (case bbox_volume vs of
                Inl e \<Rightarrow> Inl e
              | Inr bv \<Rightarrow> Inr (bv, ''BoundingBox(external)'')))
      else Inr (0, ''None''))"

definition compute_gross_volume :: "env \<Rightarrow> model \<Rightarrow> exn + (rat \<times> string)" where
  "compute_gross_volume env m =
     (case building_quantity (by_type m ''IfcBuilding'') of
        Some q \<Rightarrow> Inr (q, ''IfcBuilding:GrossVolume'')
      | None \<Rightarrow>
          (case storey_sum (by_type m ''IfcBuildingStorey'') of (gross_sum, had) \<Rightarrow>
             if had \<and> gross_sum > 0 then Inr (gross_sum, sigma @ '' Storey:GrossVolume'')
             else geometry_tier env m))"

section \<open>The command-line run\<close>

record args =
  ifc :: string
  outfile :: string

text \<open>
  What the run reads from outside: whether a path is a file, what
  \<^verbatim>\<open>ifcopenshell.open\<close> gives for it, the clock already formatted by
  \<^verbatim>\<open>strftime("%Y-%m-%d %H:%M")\<close>, and the file system: which paths exist before the run,
  whether \<^verbatim>\<open>os.makedirs\<close> fails on a directory, and whether opening a file for writing
  fails for a reason other than a missing directory (permissions, a directory of that name).
\<close>

record world =
  isfile :: "string \<Rightarrow> bool"
  open_ifc :: "string \<Rightarrow> exn + model"
  now :: string
  path_exists :: "string \<Rightarrow> bool"
  makedirs_error :: "string \<Rightarrow> exn option"
  open_error :: "string \<Rightarrow> exn option"

datatype abort = SystemExit nat | Uncaught exn

datatype cell = Str string | Flt rat | Cnt nat

text \<open>A table as \<^verbatim>\<open>csv.DictWriter\<close> receives it: the header and the rows, field by field.\<close>

record table =
  header :: "string list"
  body :: "cell list list"

text \<open>
  The effect of a run: the directory handed to \<^verbatim>\<open>os.makedirs\<close>, how the run ended
  (\<open>None\<close> is the normal end), and the files written in order, each with its name and content.
\<close>

record run =
  created :: "string option"
  ended :: "abort option"
  written :: "(string \<times> table) list"

text \<open>\<^verbatim>\<open>os.path.basename\<close>: what follows the last slash.\<close>

definition basename :: "string \<Rightarrow> string" where
  "basename p = rev (takeWhile (\<lambda>c. c \<noteq> CHR ''/'') (rev p))"

text \<open>
  \<^verbatim>\<open>os.path.dirname\<close>: what precedes the last slash, without trailing slashes unless it
  consists of slashes only.
\<close>

definition dirname :: "string \<Rightarrow> string" where
  "dirname p =
     (let head = rev (dropWhile (\<lambda>c. c \<noteq> CHR ''/'') (rev p)) in
      if head \<noteq> [] \<and> \<not> list_all (\<lambda>c. c = CHR ''/'') head
      then rev (dropWhile (\<lambda>c. c = CHR ''/'') (rev head)) else head)"

text \<open>\<open>d\<close> is a directory above \<open>dir\<close>, one of those \<^verbatim>\<open>os.makedirs(dir)\<close> creates with it.\<close>

definition is_ancestor :: "string \<Rightarrow> string \<Rightarrow> bool" where
  "is_ancestor d dir = (d \<noteq> [] \<and> take (Suc (length d)) dir = d @ ''/'')"

text \<open>
  \<^verbatim>\<open>open(p, 'w')\<close> after the directory \<open>made\<close> was created: FileNotFoundError when the
  directory of \<open>p\<close> does not exist, else what the world says; \<open>None\<close> is success.
\<close>

definition open_write :: "world \<Rightarrow> string option \<Rightarrow> string \<Rightarrow> exn option" where
  "open_write w made p =
     (let d = dirname p in
      if d \<noteq> [] \<and> \<not> path_exists w d
         \<and> \<not> (case made of None \<Rightarrow> False | Some dir \<Rightarrow> d = dir \<or> is_ancestor d dir)
      then Some FileNotFoundError
      else open_error w p)"

text \<open>
  \<^verbatim>\<open>s.replace('.csv', new)\<close>, left to right without overlap; the first argument counts
  the characters of a match still to be skipped.
\<close>

fun replace_csv :: "nat \<Rightarrow> string \<Rightarrow> string \<Rightarrow> string" where
  "replace_csv k new [] = []"
| "replace_csv (Suc k) new (c # cs) = replace_csv k new cs"
| "replace_csv 0 new (c # cs) =
     (if take 4 (c # cs) = ''.csv'' then new @ replace_csv 3 new cs
      else c # replace_csv 0 new cs)"

definition summary_header :: "string list" where
  "summary_header =
     [''Datum'', ''IFC_bestand'', ''Bruto_inhoud_m3'', ''Bruto_methode'',
      ''Netto_inhoud_m3 ('' @ sigma @ '' IfcSpace)'', ''Ruimtes_geteld'']"

definition spaces_header :: "string list" where
  "spaces_header = [''IfcType'', ''Naam'', ''GlobalId'', ''Netto_m3'', ''Methode'']"

definition row_cells :: "space_row \<Rightarrow> cell list" where
  "row_cells r =
     [Str (IfcType r), Str (Naam r), Str (row_GlobalId r), Flt (Netto_m3 r), Str (Methode r)]"

definition summary_table :: "world \<Rightarrow> args \<Rightarrow> rat \<Rightarrow> string \<Rightarrow> rat \<Rightarrow> space_row list \<Rightarrow> table" where
  "summary_table w a gross_total gross_method net_total rows =
     \<lparr>header = summary_header,
      body = [ [Str (now w), Str (basename (ifc a)), Flt (round3 gross_total), Str gross_method,
               Flt (round3 net_total), Cnt (length rows)] ]\<rparr>"

text \<open>Source lines 258 to 283: the two files, once model and volumes are there.\<close>

definition write_reports ::
  "world \<Rightarrow> args \<Rightarrow> string option \<Rightarrow> rat \<Rightarrow> space_row list \<Rightarrow> rat \<Rightarrow> string \<Rightarrow> run" where
  "write_reports w a made net_total rows gross_total gross_method =
     (let summary_file = replace_csv 0 ''_summary.csv'' (outfile a);
          spaces_file = replace_csv 0 ''_spaces.csv'' (outfile a);
          summary = (summary_file, summary_table w a gross_total gross_method net_total rows);
          spaces = (spaces_file, \<lparr>header = spaces_header, body = map row_cells rows\<rparr>)
      in case open_write w made summary_file of
           Some e \<Rightarrow> \<lparr>created = made, ended = Some (Uncaught e), written = []\<rparr>
         | None \<Rightarrow>
             (if rows \<noteq> [] then
                (case open_write w made spaces_file of
                   Some e \<Rightarrow> \<lparr>created = made, ended = Some (Uncaught e), written = [summary]\<rparr>
                 | None \<Rightarrow> \<lparr>created = made, ended = None, written = [summary, spaces]\<rparr>)
              else \<lparr>created = made, ended = None, written = [summary]\<rparr>))"

text \<open>\<^verbatim>\<open>main\<close> (source lines 228 to 287); printing is left out.\<close>

definition main :: "world \<Rightarrow> env \<Rightarrow> args \<Rightarrow> run" where
  "main w env a =
     (let output_dir = dirname (outfile a);
          make = (output_dir \<noteq> [] \<and> \<not> path_exists w output_dir)
      in case (if make then makedirs_error w output_dir else None) of
           Some e \<Rightarrow> \<lparr>created = None, ended = Some (Uncaught e), written = []\<rparr>
         | None \<Rightarrow>
             (let made = (if make then Some output_dir else None) in
              if \<not> isfile w (ifc a)
              then \<lparr>created = made, ended = Some (SystemExit 1), written = []\<rparr>
              else
                (case open_ifc w (ifc a) of
                   Inl e \<Rightarrow> \<lparr>created = made, ended = Some (Uncaught e), written = []\<rparr>
                 | Inr m \<Rightarrow>
                     (case compute_net_volume_spaces env m of (net_total, rows) \<Rightarrow>
                        (case compute_gross_volume env m of
                           Inl e \<Rightarrow> \<lparr>created = made, ended = Some (Uncaught e), written = []\<rparr>
                         | Inr (gross_total, gross_method) \<Rightarrow>
                             write_reports w a made net_total rows gross_total gross_method)))))"

section \<open>Concrete models\<close>

definition vol_quantity :: "string option \<Rightarrow> pyval \<Rightarrow> item" where
  "vol_quantity nm v =
     \<lparr>item_type = ''IfcQuantityVolume'', item_Name = nm, VolumeValue = v, NominalValue = Missing\<rparr>"

definition area_quantity :: item where
  "area_quantity =
     \<lparr>item_type = ''IfcQuantityArea'', item_Name = Some ''NetVolume'', VolumeValue = Missing,
      NominalValue = Missing\<rparr>"

definition property_item :: "string option \<Rightarrow> pyval \<Rightarrow> item" where
  "property_item nm v =
     \<lparr>item_type = ''IfcPropertySingleValue'', item_Name = nm, VolumeValue = Missing,
      NominalValue = v\<rparr>"

definition quantity_set :: "item list \<Rightarrow> ifc_rel" where
  "quantity_set qs =
     \<lparr>RelatingPropertyDefinition =
        Some \<lparr>def_type = ''IfcElementQuantity'', Quantities = Some qs, HasProperties = None\<rparr>\<rparr>"

definition entity_with :: "string \<Rightarrow> ifc_rel list \<Rightarrow> entity" where
  "entity_with gid rels =
     \<lparr>GlobalId = gid, Name = None, IsDefinedBy = Some rels, IsExternal = None\<rparr>"

definition property_set :: "item list \<Rightarrow> ifc_rel" where
  "property_set ps =
     \<lparr>RelatingPropertyDefinition =
        Some \<lparr>def_type = ''IfcPropertySet'', Quantities = None, HasProperties = Some ps\<rparr>\<rparr>"

section \<open>Reading the input of the resolver\<close>

text \<open>
  The predicates of this section speak of the input alone. A name hits when it equals a
  candidate name with case ignored, which an exact match also does.
\<close>

definition name_hit :: "string list \<Rightarrow> string \<Rightarrow> bool" where
  "name_hit names s = (lower s \<in> set (map lower names))"

definition is_num :: "pyval \<Rightarrow> bool" where
  "is_num v = (case v of Num r \<Rightarrow> True | _ \<Rightarrow> False)"

text \<open>
  A quantity that yields nothing and lets the scan go on: it is not volume-typed, or it is
  named and its name does not hit, or its name hits but it has no \<^verbatim>\<open>VolumeValue\<close>
  (missing or \<^verbatim>\<open>None\<close>) and no numeric wrapped nominal value.
\<close>

definition passed_quantity :: "string list \<Rightarrow> item \<Rightarrow> bool" where
  "passed_quantity names q =
     (item_type q \<noteq> ''IfcQuantityVolume''
      \<or> (case item_Name q of
            None \<Rightarrow> False
          | Some s \<Rightarrow>
              \<not> name_hit names s
              \<or> ((VolumeValue q = Missing \<or> VolumeValue q = PyNone)
                 \<and> \<not> is_num (NominalValue q))))"

text \<open>The same for a property: named, and no hit or no numeric wrapped nominal value.\<close>

definition passed_property :: "string list \<Rightarrow> item \<Rightarrow> bool" where
  "passed_property names p =
     (case item_Name p of
        None \<Rightarrow> False
      | Some s \<Rightarrow> \<not> name_hit names s \<or> \<not> is_num (NominalValue p))"

text \<open>
  A quantity on which the scan fails: volume-typed, and its name is \<^verbatim>\<open>None\<close>, or its name
  hits and its \<^verbatim>\<open>VolumeValue\<close> is not a number. A property fails when its name is
  \<^verbatim>\<open>None\<close>.
\<close>

definition failing_quantity :: "string list \<Rightarrow> item \<Rightarrow> bool" where
  "failing_quantity names q =
     (item_type q = ''IfcQuantityVolume''
      \<and> (case item_Name q of
            None \<Rightarrow> True
          | Some s \<Rightarrow> name_hit names s \<and> VolumeValue q = NonNum))"

definition failing_property :: "item \<Rightarrow> bool" where
  "failing_property p = (item_Name p = None)"

text \<open>A list of items with a failing item after items that are passed over.\<close>

fun quantities_fail :: "string list \<Rightarrow> item list \<Rightarrow> bool" where
  "quantities_fail names [] = False"
| "quantities_fail names (q # qs) =
     (failing_quantity names q \<or> (passed_quantity names q \<and> quantities_fail names qs))"

fun properties_fail :: "string list \<Rightarrow> item list \<Rightarrow> bool" where
  "properties_fail names [] = False"
| "properties_fail names (p # ps) =
     (failing_property p \<or> (passed_property names p \<and> properties_fail names ps))"

text \<open>
  A relationship that yields nothing: it has no relating definition, or the definition is
  of neither kind, or every item of its set is passed over.
\<close>

definition inert_rel :: "string list \<Rightarrow> ifc_rel \<Rightarrow> bool" where
  "inert_rel names r =
     (case RelatingPropertyDefinition r of
        None \<Rightarrow> True
      | Some d \<Rightarrow>
          (if def_type d = ''IfcElementQuantity''
           then list_all (passed_quantity names) (or_empty (Quantities d))
           else if def_type d = ''IfcPropertySet''
           then list_all (passed_property names) (or_empty (HasProperties d))
           else True))"

text \<open>A relationship whose set holds a failing item after items that are passed over.\<close>

definition failing_rel :: "string list \<Rightarrow> ifc_rel \<Rightarrow> bool" where
  "failing_rel names r =
     (case RelatingPropertyDefinition r of
        None \<Rightarrow> False
      | Some d \<Rightarrow>
          (if def_type d = ''IfcElementQuantity''
           then quantities_fail names (or_empty (Quantities d))
           else if def_type d = ''IfcPropertySet''
           then properties_fail names (or_empty (HasProperties d))
           else False))"

text \<open>
  The value a quantity yields: its numeric \<^verbatim>\<open>VolumeValue\<close>, or, when it has no
  \<^verbatim>\<open>VolumeValue\<close>, its numeric wrapped nominal value.
\<close>

definition quantity_value :: "item \<Rightarrow> rat option" where
  "quantity_value q =
     (case VolumeValue q of
        Num v \<Rightarrow> Some v
      | NonNum \<Rightarrow> None
      | _ \<Rightarrow> (case NominalValue q of Num v \<Rightarrow> Some v | _ \<Rightarrow> None))"

text \<open>
  The bounding box in the words of the specification: per axis the largest minus the
  smallest coordinate, and the product of the three.
\<close>

definition span :: "rat list \<Rightarrow> rat" where
  "span cs = Max (set cs) - Min (set cs)"

definition box_of :: "vertex list \<Rightarrow> rat" where
  "box_of vs = span (map fst vs) * span (map (fst \<circ> snd) vs) * span (map (snd \<circ> snd) vs)"

text \<open>The entities a run hands to the geometry kernel.\<close>

definition queried_entities :: "model \<Rightarrow> entity list" where
  "queried_entities m =
     by_type m ''IfcSpace'' @ by_type m ''IfcWallStandardCase'' @ by_type m ''IfcWall''
     @ by_type m ''IfcSlab'' @ by_type m ''IfcRoof''"

text \<open>
  Two sets of libraries give the same answers on a model: the same capabilities, the same
  shape or failure for every entity handed to the kernel, the same mesh volume or failure
  for the mesh of every space, and the same hull volume or failure for the envelope
  vertices. On every other argument they may differ.
\<close>

definition same_answers :: "env \<Rightarrow> env \<Rightarrow> model \<Rightarrow> bool" where
  "same_answers e1 e2 m =
     (HAS_GEOM e1 = HAS_GEOM e2 \<and> HAS_TRIMESH e1 = HAS_TRIMESH e2 \<and> HAS_SCIPY e1 = HAS_SCIPY e2
      \<and> list_all (\<lambda>e. create_shape e1 e = create_shape e2 e) (queried_entities m)
      \<and> list_all (\<lambda>e. case create_shape e1 e of
                         Inl x \<Rightarrow> True
                       | Inr sh \<Rightarrow> trimesh_volume e1 (fst (shape_to_mesh sh)) (snd (shape_to_mesh sh))
                                   = trimesh_volume e2 (fst (shape_to_mesh sh)) (snd (shape_to_mesh sh)))
          (by_type m ''IfcSpace'')
      \<and> hull_volume e1 (collect_building_vertices e1 m)
          = hull_volume e2 (collect_building_vertices e1 m))"

section \<open>Concrete models, continued\<close>

definition bare_entity :: "string \<Rightarrow> entity" where
  "bare_entity gid = \<lparr>GlobalId = gid, Name = None, IsDefinedBy = None, IsExternal = None\<rparr>"

definition quantity_space :: entity where
  "quantity_space =
     entity_with ''s1'' [quantity_set [vol_quantity (Some ''NetVolume'') (Num (25 / 2))] ]"


definition three_spaces :: "entity list" where
  "three_spaces = [quantity_space, bare_entity ''s2'', bare_entity ''s3'']"

definition spaces_model :: "entity list \<Rightarrow> model" where
  "spaces_model sps = \<lparr>by_type = (\<lambda>t. if t = ''IfcSpace'' then sps else [])\<rparr>"

text \<open>A run without geometry kernel and without the optional libraries.\<close>

definition no_libs :: env where
  "no_libs =
     \<lparr>HAS_GEOM = False, HAS_TRIMESH = False, HAS_SCIPY = False,
      create_shape = (\<lambda>e. Inl AttributeError),
      trimesh_volume = (\<lambda>vs fs. Inl AttributeError),
      hull_volume = (\<lambda>vs. Inl AttributeError)\<rparr>"

definition corner :: "vertex list" where
  "corner = [(0, 0, 0), (1, 0, 0), (0, 2, 3)]"

text \<open>The tetrahedron on the origin and the three unit points, wound outwards.\<close>

definition tetra_shape :: shape where
  "tetra_shape =
     \<lparr>geometry = Some \<lparr>verts = [0, 0, 0, 1, 0, 0, 0, 1, 0, 0, 0, 1],
                        faces_attr = Faces [0, 2, 1, 0, 1, 3, 0, 3, 2, 1, 2, 3]\<rparr>\<rparr>"

definition empty_shape :: shape where
  "empty_shape = \<lparr>geometry = Some \<lparr>verts = [], faces_attr = Faces []\<rparr>\<rparr>"

text \<open>
  A kernel that tessellates the entity \<open>s2\<close> to the tetrahedron, the entity \<open>s4\<close> to a
  shape without vertices, and fails on every other entity.
\<close>

definition kernel_env :: env where
  "kernel_env =
     no_libs\<lparr>HAS_GEOM := True,
             create_shape := (\<lambda>e. if GlobalId e = ''s2'' then Inr tetra_shape
                                   else if GlobalId e = ''s4'' then Inr empty_shape
                                   else Inl ValueError)\<rparr>"

text \<open>
  The row the aggregator is expected to write for one space: the resolved volume rounded
  to three decimals, and the method of the resolution.
\<close>

definition expected_row :: "env \<Rightarrow> entity \<Rightarrow> space_row" where
  "expected_row env sp =
     \<lparr>IfcType = ''IfcSpace'', Naam = display_name sp, row_GlobalId = GlobalId sp,
      Netto_m3 = round3 (fst (resolve_space env sp)), Methode = snd (resolve_space env sp)\<rparr>"

definition zero_space :: entity where
  "zero_space = entity_with ''s2'' [quantity_set [vol_quantity (Some ''NetVolume'') (Num 0)] ]"

definition gross_quantity_entity :: "string \<Rightarrow> rat \<Rightarrow> entity" where
  "gross_quantity_entity gid v =
     entity_with gid [quantity_set [vol_quantity (Some ''GrossVolume'') (Num v)] ]"

text \<open>A model given by the table of its entities per type.\<close>

definition typed_model :: "(string \<times> entity list) list \<Rightarrow> model" where
  "typed_model tbl = \<lparr>by_type = (\<lambda>t. case map_of tbl t of None \<Rightarrow> [] | Some es \<Rightarrow> es)\<rparr>"

definition zero_building_model :: model where
  "zero_building_model =
     typed_model [(''IfcBuilding'', [gross_quantity_entity ''b1'' 0]),
                  (''IfcBuildingStorey'', [gross_quantity_entity ''st1'' 100])]"

definition zero_storey_model :: model where
  "zero_storey_model =
     typed_model [(''IfcBuildingStorey'', [gross_quantity_entity ''st1'' 0]),
                  (''IfcWall'', [bare_entity ''w1''])]"

definition slab_model :: model where
  "slab_model = typed_model [(''IfcSlab'', [bare_entity ''sl1''])]"

text \<open>Four coplanar vertices, and four vertices spanning a box of 2 by 3 by 4.\<close>

definition flat_square :: "vertex list" where
  "flat_square = [(0, 0, 0), (1, 0, 0), (1, 1, 0), (0, 1, 0)]"

definition flat_slab_shape :: shape where
  "flat_slab_shape =
     \<lparr>geometry = Some \<lparr>verts = [0, 0, 0, 1, 0, 0, 1, 1, 0, 0, 1, 0],
                        faces_attr = Faces [0, 1, 2, 0, 2, 3]\<rparr>\<rparr>"

definition box_points :: "vertex list" where
  "box_points = [(0, 0, 0), (2, 0, 0), (0, 3, 0), (0, 0, 4)]"

definition box_shape :: shape where
  "box_shape =
     \<lparr>geometry = Some \<lparr>verts = [0, 0, 0, 2, 0, 0, 0, 3, 0, 0, 0, 4],
                        faces_attr = Faces [0, 2, 1, 0, 1, 3, 0, 3, 2, 1, 2, 3]\<rparr>\<rparr>"

definition tetra_points :: "vertex list" where
  "tetra_points = [(0, 0, 0), (1, 0, 0), (0, 1, 0), (0, 0, 1)]"

definition tetra_faces :: "int list list" where
  "tetra_faces = [ [0, 2, 1], [0, 1, 3], [0, 3, 2], [1, 2, 3] ]"

text \<open>A kernel that gives every entity the shape \<open>sh\<close>, and a hull library that answers \<open>hv\<close>.\<close>

definition hull_env :: "shape \<Rightarrow> (exn + rat) \<Rightarrow> env" where
  "hull_env sh hv =
     no_libs\<lparr>HAS_GEOM := True, HAS_SCIPY := True,
             create_shape := (\<lambda>e. Inr sh), hull_volume := (\<lambda>vs. hv)\<rparr>"

text \<open>A mesh library that finds the volume 0 for every mesh.\<close>

definition zero_trimesh_env :: env where
  "zero_trimesh_env = no_libs\<lparr>HAS_TRIMESH := True, trimesh_volume := (\<lambda>vs fs. Inr 0)\<rparr>"

text \<open>
  A world in which every path is a file that loads as the model \<open>m\<close>, at the time \<open>t\<close>, with
  no directory yet and nothing that hinders creating directories and files.
\<close>

definition world_of :: "model \<Rightarrow> string \<Rightarrow> world" where
  "world_of m t =
     \<lparr>isfile = (\<lambda>p. True), open_ifc = (\<lambda>p. Inr m), now = t,
      path_exists = (\<lambda>p. False), makedirs_error = (\<lambda>p. None), open_error = (\<lambda>p. None)\<rparr>"

definition run_args :: args where
  "run_args = \<lparr>ifc = ''uploads/model.ifc'', outfile = ''results/res.csv''\<rparr>"

text \<open>An output path with \<open>.csv\<close> in its directory part.\<close>

definition nested_args :: args where
  "nested_args = \<lparr>ifc = ''uploads/model.ifc'', outfile = ''out.csv.d/res.csv''\<rparr>"

text \<open>
  Libraries that answer as \<open>kernel_env\<close> on the three spaces and differently elsewhere: on
  an entity \<open>zz\<close>, on every mesh but the tetrahedron, on every non-empty vertex list.
\<close>

definition other_env :: env where
  "other_env =
     kernel_env\<lparr>create_shape := (\<lambda>e. if GlobalId e = ''zz'' then Inr empty_shape
                                     else create_shape kernel_env e),
                trimesh_volume := (\<lambda>vs fs. if vs = tetra_points then Inl AttributeError else Inr 1),
                hull_volume := (\<lambda>vs. if vs = [] then Inl AttributeError else Inr 1)\<rparr>"

section \<open>Properties of the quantity resolver\<close>

lemma exact_match_is_lower_match: "s \<in> set names \<Longrightarrow> lower s \<in> set (map lower names)"
  by auto

lemma name_matches_lower:
  "name_matches names (Some s) = Inr (lower s \<in> set (map lower names))"
  using exact_match_is_lower_match by auto

lemma name_matches_hit: "name_matches names (Some s) = Inr (name_hit names s)"
  by (simp add: name_matches_lower name_hit_def del: name_matches.simps(2))

lemma nominal_float_not_num: "\<not> is_num v \<Longrightarrow> \<exists>e. nominal_float v = Inl e"
  by (cases v) (simp_all add: is_num_def)

lemma scan_quantities_passed:
  "list_all (passed_quantity names) qs \<Longrightarrow>
   scan_quantities names (qs @ rest) = scan_quantities names rest"
proof (induction qs)
  case Nil
  then show ?case by simp
next
  case (Cons q qs)
  then have p: "passed_quantity names q" and r: "list_all (passed_quantity names) qs"
    by simp_all
  have "scan_quantities names (q # (qs @ rest)) = scan_quantities names (qs @ rest)"
  proof (cases "item_type q = ''IfcQuantityVolume''")
    case False
    then show ?thesis by simp
  next
    case True
    with p obtain s where s: "item_Name q = Some s"
      and c: "\<not> name_hit names s
              \<or> ((VolumeValue q = Missing \<or> VolumeValue q = PyNone) \<and> \<not> is_num (NominalValue q))"
      by (auto simp: passed_quantity_def split: option.splits)
    show ?thesis
    proof (cases "name_hit names s")
      case False
      then show ?thesis using True s by (simp add: name_matches_hit del: name_matches.simps(2))
    next
      case h: True
      with c have v: "VolumeValue q = Missing \<or> VolumeValue q = PyNone"
        and n: "\<not> is_num (NominalValue q)" by auto
      from n obtain e where "nominal_float (NominalValue q) = Inl e"
        using nominal_float_not_num by blast
      then show ?thesis
        using True s h v by (auto simp: name_matches_hit simp del: name_matches.simps(2))
    qed
  qed
  with Cons.IH [OF r] show ?case by simp
qed

lemma scan_properties_passed:
  "list_all (passed_property names) ps \<Longrightarrow>
   scan_properties names (ps @ rest) = scan_properties names rest"
proof (induction ps)
  case Nil
  then show ?case by simp
next
  case (Cons p ps)
  then have pp: "passed_property names p" and r: "list_all (passed_property names) ps"
    by simp_all
  from pp obtain s where s: "item_Name p = Some s"
    and c: "\<not> name_hit names s \<or> \<not> is_num (NominalValue p)"
    by (auto simp: passed_property_def split: option.splits)
  have "scan_properties names (p # (ps @ rest)) = scan_properties names (ps @ rest)"
  proof (cases "name_hit names s")
    case False
    then show ?thesis using s by (simp add: name_matches_hit del: name_matches.simps(2))
  next
    case True
    with c obtain e where "nominal_float (NominalValue p) = Inl e"
      using nominal_float_not_num by blast
    then show ?thesis
      using s True by (simp add: name_matches_hit del: name_matches.simps(2))
  qed
  with Cons.IH [OF r] show ?case by simp
qed

lemma scan_quantities_fail:
  "quantities_fail names qs \<Longrightarrow> \<exists>e. scan_quantities names qs = Raised e"
proof (induction qs)
  case Nil
  then show ?case by simp
next
  case (Cons q qs)
  show ?case
  proof (cases "failing_quantity names q")
    case True
    then show ?thesis
      by (cases "item_Name q")
         (auto simp: failing_quantity_def name_matches_hit simp del: name_matches.simps(2))
  next
    case False
    with Cons.prems have p: "passed_quantity names q" and f: "quantities_fail names qs"
      by simp_all
    from p have "scan_quantities names ([q] @ qs) = scan_quantities names qs"
      by (intro scan_quantities_passed) simp
    with Cons.IH [OF f] show ?thesis by simp
  qed
qed

lemma scan_properties_fail:
  "properties_fail names ps \<Longrightarrow> \<exists>e. scan_properties names ps = Raised e"
proof (induction ps)
  case Nil
  then show ?case by simp
next
  case (Cons p ps)
  show ?case
  proof (cases "failing_property p")
    case True
    then show ?thesis by (simp add: failing_property_def)
  next
    case False
    with Cons.prems have pp: "passed_property names p" and f: "properties_fail names ps"
      by simp_all
    from pp have "scan_properties names ([p] @ ps) = scan_properties names ps"
      by (intro scan_properties_passed) simp
    with Cons.IH [OF f] show ?thesis by simp
  qed
qed

lemma scan_quantities_passed_all:
  "list_all (passed_quantity names) qs \<Longrightarrow> scan_quantities names qs = Continue"
  using scan_quantities_passed [of names qs "[]"] by simp

lemma scan_properties_passed_all:
  "list_all (passed_property names) ps \<Longrightarrow> scan_properties names ps = Continue"
  using scan_properties_passed [of names ps "[]"] by simp

lemma scan_rels_inert:
  "list_all (inert_rel names) pre \<Longrightarrow> scan_rels names (pre @ later) = scan_rels names later"
proof (induction pre)
  case Nil
  then show ?case by simp
next
  case (Cons r pre)
  then have i: "inert_rel names r" and rest: "list_all (inert_rel names) pre"
    by simp_all
  have "scan_rels names (r # (pre @ later)) = scan_rels names (pre @ later)"
  proof (cases "RelatingPropertyDefinition r")
    case None
    then show ?thesis by simp
  next
    case (Some d)
    have "scan_definition names d = Continue"
      using i Some
      by (auto simp: inert_rel_def scan_definition_def scan_quantities_passed_all
          scan_properties_passed_all split: if_splits)
    then show ?thesis using Some by simp
  qed
  with Cons.IH [OF rest] show ?case by simp
qed

lemma scan_rels_fail:
  assumes "failing_rel names r"
  shows "\<exists>e. scan_rels names (r # later) = Raised e"
proof -
  from assms obtain d where d: "RelatingPropertyDefinition r = Some d"
    by (auto simp: failing_rel_def split: option.splits)
  have "\<exists>e. scan_definition names d = Raised e"
  proof (cases "def_type d = ''IfcElementQuantity''")
    case True
    with assms d obtain e where "scan_quantities names (or_empty (Quantities d)) = Raised e"
      using scan_quantities_fail by (auto simp: failing_rel_def)
    then show ?thesis using True by (simp add: scan_definition_def)
  next
    case False
    with assms d have ps: "def_type d = ''IfcPropertySet''"
      and "properties_fail names (or_empty (HasProperties d))"
      by (auto simp: failing_rel_def split: if_splits)
    then obtain e where "scan_properties names (or_empty (HasProperties d)) = Raised e"
      using scan_properties_fail by blast
    then show ?thesis using False ps by (simp add: scan_definition_def)
  qed
  then show ?thesis using d by auto
qed

lemma resolver_of_rels:
  "get_quantity_volume_from_obj (obj\<lparr>IsDefinedBy := Some rels\<rparr>) names
   = (case scan_rels names rels of Returned v \<Rightarrow> Some v | _ \<Rightarrow> None)"
  by (cases rels) (simp_all add: get_quantity_volume_from_obj_def split: outcome.splits)

text \<open>
  C4 as stated says that a failure while inspecting one relationship makes only that
  relationship a non-match, so that a later relationship can still supply the value. It
  fails: the first relationship below holds a volume quantity whose name is \<^verbatim>\<open>None\<close>;
  \<^verbatim>\<open>q.Name.lower()\<close> raises, the outer \<^verbatim>\<open>except\<close> returns \<^verbatim>\<open>None\<close>, and the
  \<open>NetVolume = 12.5\<close> of the second relationship, which the resolver finds when it stands
  alone, is never read.
\<close>

theorem later_relationship_lost:
  "scan_rels net_names [quantity_set [vol_quantity None (Num 1)] ] = Raised AttributeError
   \<and> get_quantity_volume_from_obj
        (entity_with ''s1'' [quantity_set [vol_quantity None (Num 1)],
                             quantity_set [vol_quantity (Some ''NetVolume'') (Num (25 / 2))] ])
        net_names = None
   \<and> get_quantity_volume_from_obj
        (entity_with ''s1'' [quantity_set [vol_quantity (Some ''NetVolume'') (Num (25 / 2))] ])
        net_names = Some (25 / 2)"
  by code_simp

text \<open>
  C4, amended. No failure leaves the resolver as an exception: its result is a value or
  absent. A relationship that yields nothing is passed over, and the relationships after
  it are scanned as if it were not there: a relationship without relating definition, with
  a definition of neither kind, or with a set in which every item is passed over, namely
  an item that does not match, a matching quantity without \<^verbatim>\<open>VolumeValue\<close> whose wrapped
  nominal value cannot be read, or a matching property whose wrapped nominal value cannot
  be read. Every other failure ends the scan: when, after relationships and items that are
  passed over, the scan meets a volume quantity whose name is \<^verbatim>\<open>None\<close>, a matching volume
  quantity whose \<^verbatim>\<open>VolumeValue\<close> is not a number, or a property whose name is \<^verbatim>\<open>None\<close>,
  the resolver returns absent, whatever relationships follow.
\<close>

theorem resolver_failure_policy:
  "(list_all (inert_rel names) pre \<longrightarrow>
      get_quantity_volume_from_obj (obj\<lparr>IsDefinedBy := Some (pre @ later)\<rparr>) names
      = get_quantity_volume_from_obj (obj\<lparr>IsDefinedBy := Some later\<rparr>) names)
   \<and> (list_all (inert_rel names) pre \<and> failing_rel names r \<longrightarrow>
      get_quantity_volume_from_obj (obj\<lparr>IsDefinedBy := Some (pre @ r # later)\<rparr>) names = None)"
proof (intro conjI impI)
  assume "list_all (inert_rel names) pre"
  then have "scan_rels names (pre @ later) = scan_rels names later"
    by (rule scan_rels_inert)
  then show "get_quantity_volume_from_obj (obj\<lparr>IsDefinedBy := Some (pre @ later)\<rparr>) names
      = get_quantity_volume_from_obj (obj\<lparr>IsDefinedBy := Some later\<rparr>) names"
    by (simp only: resolver_of_rels)
next
  assume a: "list_all (inert_rel names) pre \<and> failing_rel names r"
  then have "scan_rels names (pre @ r # later) = scan_rels names (r # later)"
    by (intro scan_rels_inert) simp
  moreover obtain e where "scan_rels names (r # later) = Raised e"
    using a scan_rels_fail by blast
  ultimately show
    "get_quantity_volume_from_obj (obj\<lparr>IsDefinedBy := Some (pre @ r # later)\<rparr>) names = None"
    by (simp add: resolver_of_rels)
qed

text \<open>
  A quantity and a property whose values cannot be read are passed over and the third
  relationship supplies 12.5; an unnamed volume quantity, and an unnamed property, hide
  the \<open>NetVolume = 12.5\<close> of the relationship after them.
\<close>

theorem resolver_failure_policy_witness:
  "get_quantity_volume_from_obj
     (entity_with ''s1''
        [quantity_set [vol_quantity (Some ''NetVolume'') PyNone],
         property_set [property_item (Some ''Volume'') NonNum],
         quantity_set [vol_quantity (Some ''NetVolume'') (Num (25 / 2))] ])
     net_names = Some (25 / 2)
   \<and> get_quantity_volume_from_obj
     (entity_with ''s1''
        [quantity_set [vol_quantity (Some ''NetVolume'') PyNone],
         quantity_set [area_quantity, vol_quantity None (Num 1)],
         quantity_set [vol_quantity (Some ''NetVolume'') (Num (25 / 2))] ])
     net_names = None
   \<and> get_quantity_volume_from_obj
     (entity_with ''s1''
        [property_set [property_item None (Num 1)],
         quantity_set [vol_quantity (Some ''NetVolume'') (Num (25 / 2))] ])
     net_names = None"
proof -
  let ?later = "[quantity_set [vol_quantity (Some ''NetVolume'') (Num (25 / 2))] ]"
  let ?pre = "[quantity_set [vol_quantity (Some ''NetVolume'') PyNone],
               property_set [property_item (Some ''Volume'') NonNum] ]"
  let ?pre2 = "[quantity_set [vol_quantity (Some ''NetVolume'') PyNone] ]"
  let ?r = "quantity_set [area_quantity, vol_quantity None (Num 1)]"
  let ?rp = "property_set [property_item None (Num 1)]"
  let ?obj = "entity_with ''s1'' []"
  have h1: "list_all (inert_rel net_names) ?pre"
    by code_simp
  have h2: "list_all (inert_rel net_names) ?pre2 \<and> failing_rel net_names ?r"
    by code_simp
  have h3: "list_all (inert_rel net_names) [] \<and> failing_rel net_names ?rp"
    by code_simp
  have l: "get_quantity_volume_from_obj (?obj\<lparr>IsDefinedBy := Some ?later\<rparr>) net_names
      = Some (25 / 2)"
    by code_simp
  have o: "\<And>rels. ?obj\<lparr>IsDefinedBy := Some rels\<rparr> = entity_with ''s1'' rels"
    by (simp add: entity_with_def)
  from resolver_failure_policy [where names = net_names and pre = ?pre and later = ?later
      and obj = ?obj] h1 l
  have c1: "get_quantity_volume_from_obj (?obj\<lparr>IsDefinedBy := Some (?pre @ ?later)\<rparr>) net_names
      = Some (25 / 2)"
    by simp
  from resolver_failure_policy [where names = net_names and pre = ?pre2 and r = ?r
      and later = ?later and obj = ?obj] h2
  have c2: "get_quantity_volume_from_obj
      (?obj\<lparr>IsDefinedBy := Some (?pre2 @ ?r # ?later)\<rparr>) net_names = None"
    by blast
  from resolver_failure_policy [where names = net_names and pre = "[]" and r = ?rp
      and later = ?later and obj = ?obj] h3
  have c3: "get_quantity_volume_from_obj
      (?obj\<lparr>IsDefinedBy := Some ([] @ ?rp # ?later)\<rparr>) net_names = None"
    by blast
  from c1 c2 c3 show ?thesis
    unfolding o by simp
qed

text \<open>
  C5 as stated says that an exact match is preferred to one that matches only when case
  is ignored, even if the latter comes first. It fails: the set below holds \<open>netvolume = 1\<close>
  before \<open>NetVolume = 2\<close>, and the resolver returns 1.
\<close>

theorem earlier_inexact_match_wins:
  "item_Name (vol_quantity (Some ''NetVolume'') (Num 2)) = Some ''NetVolume''
   \<and> ''NetVolume'' \<in> set net_names \<and> ''netvolume'' \<notin> set net_names
   \<and> get_quantity_volume_from_obj
        (entity_with ''s1'' [quantity_set [vol_quantity (Some ''netvolume'') (Num 1),
                                           vol_quantity (Some ''NetVolume'') (Num 2)] ])
        net_names = Some 1"
  by code_simp

text \<open>
  C5, amended. The quantities of a quantity set are scanned once, in the order of the set.
  A volume-typed quantity matches when its name equals a candidate name exactly or with
  case ignored; an exact match has no priority. When the relationships before the set
  yield nothing and the quantities before \<open>q\<close> in the set are passed over, a matching
  quantity \<open>q\<close> that yields a value (its numeric \<^verbatim>\<open>VolumeValue\<close>, or without
  \<^verbatim>\<open>VolumeValue\<close> its numeric wrapped nominal value) supplies the result of the resolver,
  whatever quantities and relationships follow it.
\<close>

theorem first_match_wins:
  assumes "list_all (inert_rel names) before"
    and "RelatingPropertyDefinition r = Some d"
    and "def_type d = ''IfcElementQuantity''"
    and "Quantities d = Some (pre @ q # qs)"
    and "list_all (passed_quantity names) pre"
    and "item_type q = ''IfcQuantityVolume''"
    and "item_Name q = Some s"
    and "s \<in> set names \<or> lower s \<in> set (map lower names)"
    and "quantity_value q = Some v"
  shows "get_quantity_volume_from_obj (obj\<lparr>IsDefinedBy := Some (before @ r # later)\<rparr>) names
         = Some v"
proof -
  have hit: "name_hit names s"
    using assms(8) by (auto simp: name_hit_def)
  have "scan_quantities names (q # qs) = Returned v"
    using assms(6,7,9) hit
    by (cases "VolumeValue q"; cases "NominalValue q")
       (simp_all add: quantity_value_def name_matches_hit del: name_matches.simps(2))
  then have "scan_quantities names (pre @ q # qs) = Returned v"
    using scan_quantities_passed [OF assms(5)] by simp
  then have "scan_definition names d = Returned v"
    using assms(3,4) by (simp add: scan_definition_def or_empty_def)
  then have "scan_rels names (r # later) = Returned v"
    using assms(2) by simp
  then have "scan_rels names (before @ r # later) = Returned v"
    using scan_rels_inert [OF assms(1)] by simp
  then show ?thesis
    by (simp add: resolver_of_rels)
qed

text \<open>
  After a property set that yields nothing, an area quantity and a \<open>NetVolume\<close> without
  value are passed over; \<open>netvolume = 1\<close> wins over the \<open>NetVolume = 2\<close> behind it and over
  the \<open>Volume = 3\<close> of the next relationship.
\<close>

theorem first_match_wins_witness:
  "get_quantity_volume_from_obj
     (entity_with ''s1''
        [property_set [property_item (Some ''Volume'') NonNum],
         quantity_set [area_quantity, vol_quantity (Some ''NetVolume'') PyNone,
                       vol_quantity (Some ''netvolume'') (Num 1),
                       vol_quantity (Some ''NetVolume'') (Num 2)],
         quantity_set [vol_quantity (Some ''Volume'') (Num 3)] ])
     net_names = Some 1"
proof -
  let ?before = "[property_set [property_item (Some ''Volume'') NonNum] ]"
  let ?pre = "[area_quantity, vol_quantity (Some ''NetVolume'') PyNone]"
  let ?q = "vol_quantity (Some ''netvolume'') (Num 1)"
  let ?qs = "[vol_quantity (Some ''NetVolume'') (Num 2)]"
  let ?d = "\<lparr>def_type = ''IfcElementQuantity'', Quantities = Some (?pre @ ?q # ?qs),
            HasProperties = None\<rparr>"
  let ?r = "\<lparr>RelatingPropertyDefinition = Some ?d\<rparr>"
  let ?later = "[quantity_set [vol_quantity (Some ''Volume'') (Num 3)] ]"
  let ?obj = "entity_with ''s1'' []"
  have a1: "list_all (inert_rel net_names) ?before"
    by code_simp
  have a2: "RelatingPropertyDefinition ?r = Some ?d"
    by simp
  have a3: "def_type ?d = ''IfcElementQuantity''"
    by simp
  have a4: "Quantities ?d = Some (?pre @ ?q # ?qs)"
    by simp
  have a5: "list_all (passed_quantity net_names) ?pre"
    by code_simp
  have a6: "item_type ?q = ''IfcQuantityVolume''"
    by code_simp
  have a7: "item_Name ?q = Some ''netvolume''"
    by code_simp
  have a8: "''netvolume'' \<in> set net_names \<or> lower ''netvolume'' \<in> set (map lower net_names)"
    by code_simp
  have a9: "quantity_value ?q = Some 1"
    by code_simp
  have o: "?obj\<lparr>IsDefinedBy := Some (?before @ ?r # ?later)\<rparr>
      = entity_with ''s1''
        [property_set [property_item (Some ''Volume'') NonNum],
         quantity_set [area_quantity, vol_quantity (Some ''NetVolume'') PyNone,
                       vol_quantity (Some ''netvolume'') (Num 1),
                       vol_quantity (Some ''NetVolume'') (Num 2)],
         quantity_set [vol_quantity (Some ''Volume'') (Num 3)] ]"
    by (simp add: entity_with_def quantity_set_def)
  from first_match_wins [OF a1 a2 a3 a4 a5 a6 a7 a8 a9, where obj = ?obj and later = ?later]
  show ?thesis
    unfolding o .
qed

section \<open>Properties of the mesh volume estimator\<close>

lemma try_pass_not_Raised: "try_pass b \<noteq> Raised e"
  by (cases b) (simp_all add: try_pass_def)

lemma bbox_volume_Inl: "bbox_volume vs = Inl e \<Longrightarrow> vs = []"
  by (cases vs) (simp_all add: Let_def)

lemma volume_from_mesh_Inr: "\<exists>v. volume_from_mesh env vs fs = Inr v"
proof (cases "length vs = 0 \<or> length fs = 0")
  case True
  then show ?thesis by (simp add: volume_from_mesh_def)
next
  case False
  show ?thesis
  proof (cases "if HAS_TRIMESH env then try_pass (trimesh_block env vs fs) else Continue")
    case (Raised e)
    then show ?thesis using try_pass_not_Raised [of "trimesh_block env vs fs" e]
      by (simp split: if_splits)
  next
    case (Returned v)
    then show ?thesis using False by (simp add: volume_from_mesh_def)
  next
    case Continue
    show ?thesis
    proof (cases "try_pass (signed_block vs fs)")
      case (Raised e)
      then show ?thesis using try_pass_not_Raised [of "signed_block vs fs" e] by simp
    next
      case (Returned v)
      then show ?thesis using False Continue by (simp add: volume_from_mesh_def)
    next
      case c2: Continue
      then show ?thesis using False Continue
        by (simp add: volume_from_mesh_def split: sum.splits)
    qed
  qed
qed

text \<open>
  C8. The mesh volume estimator returns a value for every list of vertices and every list
  of face rows; no exception leaves it. An exception in the mesh library has the effect of
  the library being absent: control goes on to the signed-volume tier. When the library
  did not return, an exception in the signed-volume tier (a face row that is too short, an
  index outside the vertices) leads to the bounding box. If the bounding box itself cannot be computed, the result is 0.
\<close>

theorem mesh_volume_total:
  "(\<exists>v. volume_from_mesh env vs fs = Inr v)
   \<and> (HAS_TRIMESH env \<and> trimesh_volume env vs fs = Inl e1 \<longrightarrow>
        volume_from_mesh env vs fs = volume_from_mesh (env\<lparr>HAS_TRIMESH := False\<rparr>) vs fs)
   \<and> (\<not> (HAS_TRIMESH env \<and> (\<exists>mv. trimesh_volume env vs fs = Inr mv \<and> mv > 0))
        \<and> vs \<noteq> [] \<and> fs \<noteq> [] \<and> signed_sum vs fs 0 = Inl e2 \<longrightarrow>
        volume_from_mesh env vs fs = (case bbox_volume vs of Inl e \<Rightarrow> Inr 0 | Inr v \<Rightarrow> Inr v))
   \<and> (bbox_volume vs = Inl e3 \<longrightarrow> volume_from_mesh env vs fs = Inr 0)"
proof (intro conjI impI)
  show "\<exists>v. volume_from_mesh env vs fs = Inr v"
    by (rule volume_from_mesh_Inr)
next
  assume "HAS_TRIMESH env \<and> trimesh_volume env vs fs = Inl e1"
  then show "volume_from_mesh env vs fs = volume_from_mesh (env\<lparr>HAS_TRIMESH := False\<rparr>) vs fs"
    by (simp add: volume_from_mesh_def trimesh_block_def try_pass_def)
next
  assume a: "\<not> (HAS_TRIMESH env \<and> (\<exists>mv. trimesh_volume env vs fs = Inr mv \<and> mv > 0))
        \<and> vs \<noteq> [] \<and> fs \<noteq> [] \<and> signed_sum vs fs 0 = Inl e2"
  then have "(if HAS_TRIMESH env then try_pass (trimesh_block env vs fs) else Continue) = Continue"
    by (auto simp: trimesh_block_def try_pass_def split: sum.splits)
  then show "volume_from_mesh env vs fs
      = (case bbox_volume vs of Inl e \<Rightarrow> Inr 0 | Inr v \<Rightarrow> Inr v)"
    using a by (simp add: volume_from_mesh_def signed_block_def try_pass_def)
next
  assume "bbox_volume vs = Inl e3"
  then have "vs = []" by (rule bbox_volume_Inl)
  then show "volume_from_mesh env vs fs = Inr 0"
    by (simp add: volume_from_mesh_def)
qed

text \<open>
  With a mesh library that raises and a face that points outside the three vertices, the
  result is the bounding box 1 * 2 * 3; without vertices the result is 0.
\<close>

theorem mesh_volume_total_witness:
  "volume_from_mesh (no_libs\<lparr>HAS_TRIMESH := True\<rparr>) corner [ [0, 1, 5] ] = Inr 6
   \<and> volume_from_mesh no_libs [] [ [0, 1, 2] ] = Inr 0"
proof -
  let ?env = "no_libs\<lparr>HAS_TRIMESH := True\<rparr>"
  let ?fs = "[ [0, 1, 5 :: int] ]"
  have h1: "HAS_TRIMESH ?env \<and> trimesh_volume ?env corner ?fs = Inl AttributeError"
    by code_simp
  have h2: "\<not> (HAS_TRIMESH (?env\<lparr>HAS_TRIMESH := False\<rparr>)
            \<and> (\<exists>mv. trimesh_volume (?env\<lparr>HAS_TRIMESH := False\<rparr>) corner ?fs = Inr mv \<and> mv > 0))
      \<and> corner \<noteq> [] \<and> ?fs \<noteq> [] \<and> signed_sum corner ?fs 0 = Inl IndexError"
  proof -
    have "\<not> HAS_TRIMESH (?env\<lparr>HAS_TRIMESH := False\<rparr>) \<and> corner \<noteq> [] \<and> ?fs \<noteq> []
        \<and> signed_sum corner ?fs 0 = Inl IndexError"
      by code_simp
    then show ?thesis by blast
  qed
  have h3: "bbox_volume [] = Inl ValueError"
    by simp
  have b: "bbox_volume corner = Inr 6"
    by code_simp
  from mesh_volume_total [where env = ?env and vs = corner and fs = ?fs
      and ?e1.0 = AttributeError] h1
  have s1: "volume_from_mesh ?env corner ?fs
      = volume_from_mesh (?env\<lparr>HAS_TRIMESH := False\<rparr>) corner ?fs"
    by blast
  from mesh_volume_total [where env = "?env\<lparr>HAS_TRIMESH := False\<rparr>" and vs = corner
      and fs = ?fs and ?e2.0 = IndexError] h2 b
  have s2: "volume_from_mesh (?env\<lparr>HAS_TRIMESH := False\<rparr>) corner ?fs = Inr 6"
    by simp
  from mesh_volume_total [where env = no_libs and vs = "[]" and fs = "[ [0, 1, 2] ]"
      and ?e3.0 = ValueError] h3
  have s3: "volume_from_mesh no_libs [] [ [0, 1, 2] ] = Inr 0"
    by blast
  from s1 s2 s3 show ?thesis by simp
qed

section \<open>Properties of the net volume aggregator\<close>

lemma foldl_space_step:
  "foldl (space_step env) (t, rs) sps
   = (t + sum_list (map (\<lambda>sp. fst (resolve_space env sp)) sps),
      rs @ map (expected_row env) sps)"
  by (induction sps arbitrary: t rs)
     (simp_all add: space_step_def expected_row_def split: prod.splits)

lemma net_rows: "snd (compute_net_volume_spaces env m) = map (expected_row env) (by_type m ''IfcSpace'')"
  by (simp add: compute_net_volume_spaces_def foldl_space_step)

lemma net_total:
  "fst (compute_net_volume_spaces env m)
   = sum_list (map (\<lambda>sp. fst (resolve_space env sp)) (by_type m ''IfcSpace''))"
  by (simp add: compute_net_volume_spaces_def foldl_space_step)



lemma round3_0: "round3 0 = 0"
  by (simp add: round3_def)

lemma resolve_unavail:
  assumes "get_quantity_volume_from_obj sp net_names = None"
    and "\<not> HAS_GEOM env \<or> (\<exists>e. create_shape env sp = Inl e)
         \<or> (\<exists>sh. create_shape env sp = Inr sh
               \<and> (fst (shape_to_mesh sh) = [] \<or> snd (shape_to_mesh sh) = []))"
  shows "resolve_space env sp = (0, ''Unavail'')"
  using assms
  by (auto simp: resolve_space_def tessellate_space_def split: prod.splits)

lemma resolve_mesh:
  assumes "get_quantity_volume_from_obj sp net_names = None" and "HAS_GEOM env"
    and "create_shape env sp = Inr sh" and "shape_to_mesh sh = (v, f)"
    and "v \<noteq> []" and "f \<noteq> []"
  shows "snd (resolve_space env sp) = ''Geometry(mesh)''"
proof -
  obtain x where "volume_from_mesh env v f = Inr x"
    using volume_from_mesh_Inr by blast
  with assms show ?thesis
    by (simp add: resolve_space_def tessellate_space_def)
qed





text \<open>
  C2 as stated says that a space without quantity is tagged \<open>Geometry(mesh)\<close> whenever
  tessellation is available, also when the mesh is empty. It fails: for the empty mesh the
  branch of source lines 152 to 154 writes 0 and \<open>Unavail\<close>.
\<close>

theorem empty_mesh_not_geometry:
  "get_quantity_volume_from_obj (bare_entity ''s4'') net_names = None
   \<and> HAS_GEOM kernel_env
   \<and> create_shape kernel_env (bare_entity ''s4'') = Inr empty_shape
   \<and> shape_to_mesh empty_shape = ([], [])
   \<and> compute_net_volume_spaces kernel_env (spaces_model [bare_entity ''s4''])
       = (0, [\<lparr>IfcType = ''IfcSpace'', Naam = ''s4'', row_GlobalId = ''s4'',
                Netto_m3 = 0, Methode = ''Unavail''\<rparr>])"
  by code_simp

text \<open>
  C2, amended. When the Quantity Resolver returns absent for a space, the kernel is
  available and tessellation returns a shape, the row of the space is tagged
  \<open>Geometry(mesh)\<close> if the mesh has at least one vertex and at least one face row; if the
  mesh has no vertex or no face row, the row is tagged \<open>Unavail\<close> with the value 0.
\<close>

theorem geometry_tag_needs_mesh:
  assumes "i < length (by_type m ''IfcSpace'')"
    and "get_quantity_volume_from_obj (by_type m ''IfcSpace'' ! i) net_names = None"
    and "HAS_GEOM env"
    and "create_shape env (by_type m ''IfcSpace'' ! i) = Inr sh"
    and "shape_to_mesh sh = (v, f)"
  shows "(v \<noteq> [] \<and> f \<noteq> [] \<longrightarrow>
            Methode (snd (compute_net_volume_spaces env m) ! i) = ''Geometry(mesh)'')
         \<and> (v = [] \<or> f = [] \<longrightarrow>
            Methode (snd (compute_net_volume_spaces env m) ! i) = ''Unavail''
            \<and> Netto_m3 (snd (compute_net_volume_spaces env m) ! i) = 0)"
proof -
  let ?sp = "by_type m ''IfcSpace'' ! i"
  have row: "snd (compute_net_volume_spaces env m) ! i = expected_row env ?sp"
    using assms(1) by (simp add: net_rows)
  have a: "v \<noteq> [] \<and> f \<noteq> [] \<longrightarrow> snd (resolve_space env ?sp) = ''Geometry(mesh)''"
    using resolve_mesh [OF assms(2-5)] by blast
  have b: "v = [] \<or> f = [] \<longrightarrow> resolve_space env ?sp = (0, ''Unavail'')"
  proof
    assume "v = [] \<or> f = []"
    then have "fst (shape_to_mesh sh) = [] \<or> snd (shape_to_mesh sh) = []"
      using assms(5) by auto
    then show "resolve_space env ?sp = (0, ''Unavail'')"
      using resolve_unavail [OF assms(2)] assms(4) by blast
  qed
  from a b show ?thesis
    unfolding row by (auto simp: expected_row_def round3_0)
qed

text \<open>The tetrahedron is tagged \<open>Geometry(mesh)\<close>, the shape without vertices \<open>Unavail\<close>.\<close>

theorem geometry_tag_needs_mesh_witness:
  "Methode (snd (compute_net_volume_spaces kernel_env (spaces_model three_spaces)) ! 1)
     = ''Geometry(mesh)''
   \<and> Methode (snd (compute_net_volume_spaces kernel_env
                      (spaces_model [bare_entity ''s4''])) ! 0) = ''Unavail''
   \<and> Netto_m3 (snd (compute_net_volume_spaces kernel_env
                       (spaces_model [bare_entity ''s4''])) ! 0) = 0"
proof -
  let ?m = "spaces_model three_spaces"
  let ?m4 = "spaces_model [bare_entity ''s4'']"
  have a1: "1 < length (by_type ?m ''IfcSpace'')"
    by code_simp
  have a2: "get_quantity_volume_from_obj (by_type ?m ''IfcSpace'' ! 1) net_names = None"
    by code_simp
  have a3: "HAS_GEOM kernel_env"
    by code_simp
  have a4: "create_shape kernel_env (by_type ?m ''IfcSpace'' ! 1) = Inr tetra_shape"
    by code_simp
  have a5: "shape_to_mesh tetra_shape
      = ([(0, 0, 0), (1, 0, 0), (0, 1, 0), (0, 0, 1)],
         [ [0, 2, 1], [0, 1, 3], [0, 3, 2], [1, 2, 3] ])"
    by code_simp
  have b1: "0 < length (by_type ?m4 ''IfcSpace'')"
    by code_simp
  have b2: "get_quantity_volume_from_obj (by_type ?m4 ''IfcSpace'' ! 0) net_names = None"
    by code_simp
  have b4: "create_shape kernel_env (by_type ?m4 ''IfcSpace'' ! 0) = Inr empty_shape"
    by code_simp
  have b5: "shape_to_mesh empty_shape = ([], [])"
    by code_simp
  from geometry_tag_needs_mesh [OF a1 a2 a3 a4 a5]
  have c1: "Methode (snd (compute_net_volume_spaces kernel_env ?m) ! 1) = ''Geometry(mesh)''"
    by simp
  from geometry_tag_needs_mesh [OF b1 b2 a3 b4 b5]
  have c2: "Methode (snd (compute_net_volume_spaces kernel_env ?m4) ! 0) = ''Unavail''
      \<and> Netto_m3 (snd (compute_net_volume_spaces kernel_env ?m4) ! 0) = 0"
    by simp
  from c1 c2 show ?thesis by simp
qed

text \<open>
  C9. When the Quantity Resolver returns absent for a space, the kernel is available and
  tessellating the space raises, the row of that space has the value 0 and the method
  \<open>Unavail\<close>, and the loop goes on: the spaces before and after it get their rows and
  their share of the total as they would without it.
\<close>

theorem tessellation_failure_row:
  assumes "by_type m ''IfcSpace'' = pre @ sp # post"
    and "get_quantity_volume_from_obj sp net_names = None"
    and "HAS_GEOM env"
    and "create_shape env sp = Inl e"
  shows "snd (compute_net_volume_spaces env m)
           = map (expected_row env) pre
             @ \<lparr>IfcType = ''IfcSpace'', Naam = display_name sp, row_GlobalId = GlobalId sp,
                Netto_m3 = 0, Methode = ''Unavail''\<rparr>
             # map (expected_row env) post
         \<and> fst (compute_net_volume_spaces env m)
           = sum_list (map (\<lambda>s. fst (resolve_space env s)) pre) + 0
             + sum_list (map (\<lambda>s. fst (resolve_space env s)) post)"
proof -
  have "resolve_space env sp = (0, ''Unavail'')"
    using resolve_unavail [OF assms(2)] assms(4) by blast
  then have "expected_row env sp
      = \<lparr>IfcType = ''IfcSpace'', Naam = display_name sp, row_GlobalId = GlobalId sp,
         Netto_m3 = 0, Methode = ''Unavail''\<rparr>"
    and "fst (resolve_space env sp) = 0"
    by (simp_all add: expected_row_def round3_0)
  then show ?thesis
    using assms(1) by (simp add: net_rows net_total)
qed

text \<open>The kernel fails on \<open>s3\<close>; the space after it is still resolved from its quantity.\<close>

theorem tessellation_failure_row_witness:
  "compute_net_volume_spaces kernel_env (spaces_model [bare_entity ''s3'', quantity_space])
     = (25 / 2,
        [\<lparr>IfcType = ''IfcSpace'', Naam = ''s3'', row_GlobalId = ''s3'',
          Netto_m3 = 0, Methode = ''Unavail''\<rparr>,
         \<lparr>IfcType = ''IfcSpace'', Naam = ''s1'', row_GlobalId = ''s1'',
          Netto_m3 = 25 / 2, Methode = ''Quantity(Net/Volume)''\<rparr>])"
proof -
  let ?m = "spaces_model [bare_entity ''s3'', quantity_space]"
  have a1: "by_type ?m ''IfcSpace'' = [] @ bare_entity ''s3'' # [quantity_space]"
    by (simp add: spaces_model_def)
  have a2: "get_quantity_volume_from_obj (bare_entity ''s3'') net_names = None"
    by code_simp
  have a3: "HAS_GEOM kernel_env"
    by code_simp
  have a4: "create_shape kernel_env (bare_entity ''s3'') = Inl ValueError"
    by code_simp
  have n: "display_name (bare_entity ''s3'') = ''s3'' \<and> GlobalId (bare_entity ''s3'') = ''s3''"
    by code_simp
  have q: "expected_row kernel_env quantity_space
      = \<lparr>IfcType = ''IfcSpace'', Naam = ''s1'', row_GlobalId = ''s1'',
          Netto_m3 = 25 / 2, Methode = ''Quantity(Net/Volume)''\<rparr>
      \<and> fst (resolve_space kernel_env quantity_space) = 25 / 2"
    by code_simp
  from tessellation_failure_row [OF a1 a2 a3 a4] n q
  show ?thesis by (simp add: prod_eq_iff)
qed

section \<open>Properties of the gross volume estimator\<close>

lemma fold_max_Max: "fold max (tl (c # cs)) (hd (c # cs)) = Max (set (c # cs :: rat list))"
  using Max.set_eq_fold [of c cs] by simp

lemma fold_min_Min: "fold min (tl (c # cs)) (hd (c # cs)) = Min (set (c # cs :: rat list))"
  using Min.set_eq_fold [of c cs] by simp

lemma bbox_volume_box: "vs \<noteq> [] \<Longrightarrow> bbox_volume vs = Inr (box_of vs)"
proof (cases vs)
  case Nil
  moreover assume "vs \<noteq> []"
  ultimately show ?thesis by simp
next
  case (Cons p ps)
  have "bbox_volume (p # ps) = Inr (box_of (p # ps))"
    unfolding bbox_volume.simps Let_def box_of_def span_def list.map
    by (simp only: fold_max_Max fold_min_Min)
  then show ?thesis using Cons by simp
qed

lemma collect_nonempty_bbox:
  "vs \<noteq> [] \<Longrightarrow> \<exists>bv. bbox_volume vs = Inr bv"
  by (cases vs) (simp_all add: Let_def)

lemma geometry_tier_Inr: "\<exists>r. geometry_tier env m = Inr r"
proof (cases "collect_building_vertices env m = []")
  case True
  then show ?thesis by (simp add: geometry_tier_def)
next
  case False
  then obtain bv where bv: "bbox_volume (collect_building_vertices env m) = Inr bv"
    using collect_nonempty_bbox by blast
  show ?thesis
  proof (cases "if HAS_SCIPY env then try_pass (hull_block env (collect_building_vertices env m)) else Continue")
    case (Raised e)
    then show ?thesis
      using try_pass_not_Raised [of "hull_block env (collect_building_vertices env m)" e]
      by (simp split: if_splits)
  next
    case (Returned v)
    then show ?thesis using False by (simp add: geometry_tier_def Let_def)
  next
    case Continue
    then show ?thesis using False bv by (simp add: geometry_tier_def Let_def)
  qed
qed

lemma compute_gross_volume_Inr: "\<exists>g gm. compute_gross_volume env m = Inr (g, gm)"
proof -
  obtain r where "geometry_tier env m = Inr r"
    using geometry_tier_Inr by blast
  then show ?thesis
    by (cases r) (auto simp: compute_gross_volume_def split: option.splits prod.splits)
qed

lemma geometry_tier_hull:
  assumes "collect_building_vertices env m = vs" and "vs \<noteq> []"
    and "HAS_SCIPY env" and "hull_volume env vs = Inr hv" and "hv > 0"
  shows "geometry_tier env m = Inr (hv, ''ConvexHull(external)'')"
  using assms by (simp add: geometry_tier_def hull_block_def try_pass_def)

lemma geometry_tier_bbox:
  assumes "collect_building_vertices env m = vs" and "vs \<noteq> []"
    and "\<not> HAS_SCIPY env \<or> (\<exists>e. hull_volume env vs = Inl e)
         \<or> (\<exists>hv. hull_volume env vs = Inr hv \<and> \<not> hv > 0)"
  shows "\<exists>bv. bbox_volume vs = Inr bv \<and> geometry_tier env m = Inr (bv, ''BoundingBox(external)'')"
proof -
  obtain bv where "bbox_volume vs = Inr bv"
    using assms(2) collect_nonempty_bbox by blast
  moreover have "(if HAS_SCIPY env then try_pass (hull_block env vs) else Continue) = Continue"
    using assms(3) by (auto simp: hull_block_def try_pass_def)
  ultimately show ?thesis
    using assms(1,2) by (simp add: geometry_tier_def)
qed

lemma geometry_tier_hull_tag:
  "geometry_tier env m = Inr (v, ''ConvexHull(external)'') \<Longrightarrow> v > 0"
  by (auto simp: geometry_tier_def hull_block_def try_pass_def Let_def
      split: if_splits sum.splits outcome.splits)

lemma gross_hull_tag_positive:
  "compute_gross_volume env m = Inr (v, ''ConvexHull(external)'') \<Longrightarrow> v > 0"
  by (auto simp: compute_gross_volume_def sigma_def
      split: option.splits prod.splits if_splits dest: geometry_tier_hull_tag)

lemma gross_reaches_geometry:
  assumes "building_quantity (by_type m ''IfcBuilding'') = None"
    and "\<not> (snd (storey_sum (by_type m ''IfcBuildingStorey''))
            \<and> fst (storey_sum (by_type m ''IfcBuildingStorey'')) > 0)"
  shows "compute_gross_volume env m = geometry_tier env m"
  using assms by (auto simp: compute_gross_volume_def split: prod.splits)

text \<open>
  C6. Suppose the quantity tiers did not answer and envelope vertices were collected. A
  positive volume of the convex hull is returned with the tag \<open>ConvexHull(external)\<close>. When
  the hull library is absent, raises, or finds a volume that is not positive, the result
  is the bounding-box volume of the vertices, the product over the three axes of the
  largest minus the smallest coordinate, with the tag \<open>BoundingBox(external)\<close>. The value
  0 never carries the tag \<open>ConvexHull(external)\<close>.
\<close>

theorem hull_tier_policy:
  assumes "building_quantity (by_type m ''IfcBuilding'') = None"
    and "\<not> (snd (storey_sum (by_type m ''IfcBuildingStorey''))
            \<and> fst (storey_sum (by_type m ''IfcBuildingStorey'')) > 0)"
    and "collect_building_vertices env m = vs"
    and "vs \<noteq> []"
  shows "(HAS_SCIPY env \<and> hull_volume env vs = Inr hv \<and> hv > 0 \<longrightarrow>
            compute_gross_volume env m = Inr (hv, ''ConvexHull(external)''))
         \<and> (\<not> HAS_SCIPY env \<or> (\<exists>e. hull_volume env vs = Inl e)
              \<or> (\<exists>h. hull_volume env vs = Inr h \<and> \<not> h > 0) \<longrightarrow>
            compute_gross_volume env m = Inr (box_of vs, ''BoundingBox(external)''))
         \<and> compute_gross_volume env m \<noteq> Inr (0, ''ConvexHull(external)'')"
proof -
  have g: "compute_gross_volume env m = geometry_tier env m"
    using assms(1,2) by (rule gross_reaches_geometry)
  have bb: "bbox_volume vs = Inr (box_of vs)"
    using assms(4) by (rule bbox_volume_box)
  have a: "HAS_SCIPY env \<and> hull_volume env vs = Inr hv \<and> hv > 0 \<longrightarrow>
            compute_gross_volume env m = Inr (hv, ''ConvexHull(external)'')"
    unfolding g using geometry_tier_hull [OF assms(3,4)] by blast
  have b: "\<not> HAS_SCIPY env \<or> (\<exists>e. hull_volume env vs = Inl e)
              \<or> (\<exists>h. hull_volume env vs = Inr h \<and> \<not> h > 0) \<longrightarrow>
            compute_gross_volume env m = Inr (box_of vs, ''BoundingBox(external)'')"
    unfolding g using geometry_tier_bbox [OF assms(3,4)] bb by auto
  have c: "compute_gross_volume env m \<noteq> Inr (0, ''ConvexHull(external)'')"
    using gross_hull_tag_positive [of env m 0] by auto
  from a b c show ?thesis by blast
qed

text \<open>
  A slab whose vertices span a box of 2 by 3 by 4: a hull of volume 4 is returned as
  such; a hull of volume 0 and a hull library that raises give the bounding box 24. A slab
  of four coplanar vertices with a hull of volume 0 gives the bounding box 0.
\<close>

theorem hull_tier_policy_witness:
  "compute_gross_volume (hull_env box_shape (Inr 4)) slab_model
     = Inr (4, ''ConvexHull(external)'')
   \<and> compute_gross_volume (hull_env box_shape (Inr 0)) slab_model
     = Inr (24, ''BoundingBox(external)'')
   \<and> compute_gross_volume (hull_env box_shape (Inl QhullError)) slab_model
     = Inr (24, ''BoundingBox(external)'')
   \<and> compute_gross_volume (hull_env flat_slab_shape (Inr 0)) slab_model
     = Inr (0, ''BoundingBox(external)'')"
proof -
  have a1: "building_quantity (by_type slab_model ''IfcBuilding'') = None"
    by code_simp
  have a2: "\<not> (snd (storey_sum (by_type slab_model ''IfcBuildingStorey''))
            \<and> fst (storey_sum (by_type slab_model ''IfcBuildingStorey'')) > 0)"
    by code_simp
  have v1: "collect_building_vertices (hull_env box_shape (Inr 4)) slab_model = box_points"
    by code_simp
  have v2: "collect_building_vertices (hull_env box_shape (Inr 0)) slab_model = box_points"
    by code_simp
  have v3: "collect_building_vertices (hull_env box_shape (Inl QhullError)) slab_model
      = box_points"
    by code_simp
  have v4: "collect_building_vertices (hull_env flat_slab_shape (Inr 0)) slab_model = flat_square"
    by code_simp
  have n1: "box_points \<noteq> []" and n2: "flat_square \<noteq> []"
    by (simp_all add: box_points_def flat_square_def)
  have h1: "HAS_SCIPY (hull_env box_shape (Inr 4))
      \<and> hull_volume (hull_env box_shape (Inr 4)) box_points = Inr 4 \<and> (4::rat) > 0"
    by code_simp
  have h2: "hull_volume (hull_env box_shape (Inr 0)) box_points = Inr 0 \<and> \<not> (0::rat) > 0"
    by code_simp
  have h3: "hull_volume (hull_env box_shape (Inl QhullError)) box_points = Inl QhullError"
    by code_simp
  have h4: "hull_volume (hull_env flat_slab_shape (Inr 0)) flat_square = Inr 0 \<and> \<not> (0::rat) > 0"
    by code_simp
  have b1: "box_of box_points = 24" and b2: "box_of flat_square = 0"
    by code_simp+
  from hull_tier_policy [OF a1 a2 v1 n1, where hv = 4] h1
  have c1: "compute_gross_volume (hull_env box_shape (Inr 4)) slab_model
     = Inr (4, ''ConvexHull(external)'')"
    by blast
  from hull_tier_policy [OF a1 a2 v2 n1] h2 b1
  have c2: "compute_gross_volume (hull_env box_shape (Inr 0)) slab_model
     = Inr (24, ''BoundingBox(external)'')"
    by auto
  from hull_tier_policy [OF a1 a2 v3 n1] h3 b1
  have c3: "compute_gross_volume (hull_env box_shape (Inl QhullError)) slab_model
     = Inr (24, ''BoundingBox(external)'')"
    by auto
  from hull_tier_policy [OF a1 a2 v4 n2] h4 b2
  have c4: "compute_gross_volume (hull_env flat_slab_shape (Inr 0)) slab_model
     = Inr (0, ''BoundingBox(external)'')"
    by auto
  from c1 c2 c3 c4 show ?thesis by blast
qed

text \<open>
  C3 as stated says that in every fallback chain a zero volume advances to the next tier,
  and that a building quantity of 0 is not returned. It fails: the building below has
  \<open>GrossVolume = 0\<close>, a storey has \<open>GrossVolume = 100\<close>, and the estimator returns 0 with the
  tag \<open>IfcBuilding:GrossVolume\<close>.
\<close>

theorem zero_building_quantity_returned:
  "get_quantity_volume_from_obj (gross_quantity_entity ''b1'' 0) gross_names = Some 0
   \<and> by_type zero_building_model ''IfcBuilding'' = [gross_quantity_entity ''b1'' 0]
   \<and> by_type zero_building_model ''IfcBuildingStorey'' = [gross_quantity_entity ''st1'' 100]
   \<and> compute_gross_volume no_libs zero_building_model = Inr (0, ''IfcBuilding:GrossVolume'')"
  by code_simp

text \<open>
  C3, amended. A quantity found by the Quantity Resolver is final whatever its value, 0
  included: the Gross Volume Estimator returns the quantity of the first building that
  has one with the tag \<open>IfcBuilding:GrossVolume\<close>, and the Net Volume Aggregator reports
  the quantity of a space with the tag \<open>Quantity(Net/Volume)\<close>. In the other tiers a volume
  that is not positive advances to the next tier: the storey sum to the geometric
  envelope, the convex hull to the bounding box, the mesh library to the signed-volume
  sum, and the signed-volume sum to the bounding box.
\<close>

theorem zero_volume_policy:
  "(building_quantity (by_type m ''IfcBuilding'') = Some q \<longrightarrow>
      compute_gross_volume env m = Inr (q, ''IfcBuilding:GrossVolume''))
   \<and> (get_quantity_volume_from_obj sp net_names = Some q' \<longrightarrow>
      resolve_space env sp = (q', ''Quantity(Net/Volume)''))
   \<and> (building_quantity (by_type m ''IfcBuilding'') = None
        \<and> fst (storey_sum (by_type m ''IfcBuildingStorey'')) \<le> 0 \<longrightarrow>
      compute_gross_volume env m = geometry_tier env m)
   \<and> (collect_building_vertices env m \<noteq> [] \<and> HAS_SCIPY env
        \<and> hull_volume env (collect_building_vertices env m) = Inr hv \<and> hv \<le> 0 \<longrightarrow>
      (\<exists>bv. bbox_volume (collect_building_vertices env m) = Inr bv
         \<and> geometry_tier env m = Inr (bv, ''BoundingBox(external)'')))
   \<and> (HAS_TRIMESH env \<and> trimesh_volume env vs fs = Inr mv \<and> mv \<le> 0 \<longrightarrow>
      volume_from_mesh env vs fs = volume_from_mesh (env\<lparr>HAS_TRIMESH := False\<rparr>) vs fs)
   \<and> (\<not> HAS_TRIMESH env \<and> vs \<noteq> [] \<and> fs \<noteq> [] \<and> signed_sum vs fs 0 = Inr 0 \<longrightarrow>
      volume_from_mesh env vs fs = (case bbox_volume vs of Inl e \<Rightarrow> Inr 0 | Inr v \<Rightarrow> Inr v))"
proof (intro conjI impI)
  assume "building_quantity (by_type m ''IfcBuilding'') = Some q"
  then show "compute_gross_volume env m = Inr (q, ''IfcBuilding:GrossVolume'')"
    by (simp add: compute_gross_volume_def)
next
  assume "get_quantity_volume_from_obj sp net_names = Some q'"
  then show "resolve_space env sp = (q', ''Quantity(Net/Volume)'')"
    by (simp add: resolve_space_def)
next
  assume "building_quantity (by_type m ''IfcBuilding'') = None
        \<and> fst (storey_sum (by_type m ''IfcBuildingStorey'')) \<le> 0"
  then show "compute_gross_volume env m = geometry_tier env m"
    by (intro gross_reaches_geometry) auto
next
  assume a: "collect_building_vertices env m \<noteq> [] \<and> HAS_SCIPY env
        \<and> hull_volume env (collect_building_vertices env m) = Inr hv \<and> hv \<le> 0"
  then have "\<exists>h. hull_volume env (collect_building_vertices env m) = Inr h \<and> \<not> h > 0"
    by auto
  then show "\<exists>bv. bbox_volume (collect_building_vertices env m) = Inr bv
         \<and> geometry_tier env m = Inr (bv, ''BoundingBox(external)'')"
    using a geometry_tier_bbox [of env m "collect_building_vertices env m"] by blast
next
  assume "HAS_TRIMESH env \<and> trimesh_volume env vs fs = Inr mv \<and> mv \<le> 0"
  then show "volume_from_mesh env vs fs = volume_from_mesh (env\<lparr>HAS_TRIMESH := False\<rparr>) vs fs"
    by (simp add: volume_from_mesh_def trimesh_block_def try_pass_def)
next
  assume "\<not> HAS_TRIMESH env \<and> vs \<noteq> [] \<and> fs \<noteq> [] \<and> signed_sum vs fs 0 = Inr 0"
  then show "volume_from_mesh env vs fs
      = (case bbox_volume vs of Inl e \<Rightarrow> Inr 0 | Inr v \<Rightarrow> Inr v)"
    by (simp add: volume_from_mesh_def signed_block_def try_pass_def)
qed

text \<open>
  One input for each of the six cases: a building with quantity 0; a space with quantity 0
  that the kernel could tessellate; a storey sum of 0 beside a wall; a hull of volume 0;
  a mesh library that answers 0 on the tetrahedron; a single triangle through the origin.
\<close>

theorem zero_volume_policy_witness:
  "compute_gross_volume no_libs zero_building_model = Inr (0, ''IfcBuilding:GrossVolume'')
   \<and> resolve_space kernel_env zero_space = (0, ''Quantity(Net/Volume)'')
   \<and> compute_gross_volume (hull_env box_shape (Inr 4)) zero_storey_model
       = Inr (4, ''ConvexHull(external)'')
   \<and> geometry_tier (hull_env flat_slab_shape (Inr 0)) slab_model
       = Inr (0, ''BoundingBox(external)'')
   \<and> volume_from_mesh zero_trimesh_env tetra_points tetra_faces = Inr (1 / 6)
   \<and> volume_from_mesh no_libs corner [ [0, 1, 2] ] = Inr 6"
proof -
  let ?henv = "hull_env flat_slab_shape (Inr 0)"
  have h1: "building_quantity (by_type zero_building_model ''IfcBuilding'') = Some 0"
    by code_simp
  have h2: "get_quantity_volume_from_obj zero_space net_names = Some 0"
    by code_simp
  have h3: "building_quantity (by_type zero_storey_model ''IfcBuilding'') = None
        \<and> fst (storey_sum (by_type zero_storey_model ''IfcBuildingStorey'')) \<le> 0"
    by code_simp
  have g3: "geometry_tier (hull_env box_shape (Inr 4)) zero_storey_model
      = Inr (4, ''ConvexHull(external)'')"
    by code_simp
  have h4: "collect_building_vertices ?henv slab_model \<noteq> [] \<and> HAS_SCIPY ?henv
        \<and> hull_volume ?henv (collect_building_vertices ?henv slab_model) = Inr 0 \<and> (0::rat) \<le> 0"
    by code_simp
  have b4: "bbox_volume (collect_building_vertices ?henv slab_model) = Inr 0"
    by code_simp
  have h5: "HAS_TRIMESH zero_trimesh_env
      \<and> trimesh_volume zero_trimesh_env tetra_points tetra_faces = Inr 0 \<and> (0::rat) \<le> 0"
    by code_simp
  have r5: "volume_from_mesh (zero_trimesh_env\<lparr>HAS_TRIMESH := False\<rparr>) tetra_points tetra_faces
      = Inr (1 / 6)"
    by code_simp
  have h6: "\<not> HAS_TRIMESH no_libs \<and> corner \<noteq> [] \<and> [ [0, 1, 2 :: int] ] \<noteq> []
      \<and> signed_sum corner [ [0, 1, 2] ] 0 = Inr 0"
    by code_simp
  have b6: "bbox_volume corner = Inr 6"
    by code_simp
  from zero_volume_policy [where m = zero_building_model and q = 0 and env = no_libs] h1
  have c1: "compute_gross_volume no_libs zero_building_model = Inr (0, ''IfcBuilding:GrossVolume'')"
    by blast
  from zero_volume_policy [where sp = zero_space and q' = 0 and env = kernel_env] h2
  have c2: "resolve_space kernel_env zero_space = (0, ''Quantity(Net/Volume)'')"
    by blast
  from zero_volume_policy [where m = zero_storey_model and env = "hull_env box_shape (Inr 4)"] h3
  have "compute_gross_volume (hull_env box_shape (Inr 4)) zero_storey_model
      = geometry_tier (hull_env box_shape (Inr 4)) zero_storey_model"
    by blast
  with g3 have c3: "compute_gross_volume (hull_env box_shape (Inr 4)) zero_storey_model
       = Inr (4, ''ConvexHull(external)'')"
    by simp
  from zero_volume_policy [where m = slab_model and env = ?henv and hv = 0] h4
  have "\<exists>bv. bbox_volume (collect_building_vertices ?henv slab_model) = Inr bv
         \<and> geometry_tier ?henv slab_model = Inr (bv, ''BoundingBox(external)'')"
    by blast
  with b4 have c4: "geometry_tier ?henv slab_model = Inr (0, ''BoundingBox(external)'')"
    by auto
  from zero_volume_policy [where env = zero_trimesh_env and vs = tetra_points
      and fs = tetra_faces and mv = 0] h5
  have "volume_from_mesh zero_trimesh_env tetra_points tetra_faces
      = volume_from_mesh (zero_trimesh_env\<lparr>HAS_TRIMESH := False\<rparr>) tetra_points tetra_faces"
    by blast
  with r5 have c5: "volume_from_mesh zero_trimesh_env tetra_points tetra_faces = Inr (1 / 6)"
    by simp
  from zero_volume_policy [where env = no_libs and vs = corner and fs = "[ [0, 1, 2] ]"] h6 b6
  have c6: "volume_from_mesh no_libs corner [ [0, 1, 2] ] = Inr 6"
    by simp
  from c1 c2 c3 c4 c5 c6 show ?thesis by blast
qed

section \<open>Properties of the command-line run\<close>

lemma volume_from_mesh_cong:
  "HAS_TRIMESH e1 = HAS_TRIMESH e2 \<Longrightarrow> trimesh_volume e1 v f = trimesh_volume e2 v f \<Longrightarrow>
   volume_from_mesh e1 v f = volume_from_mesh e2 v f"
  by (simp add: volume_from_mesh_def trimesh_block_def)

lemma resolve_space_cong:
  assumes "HAS_GEOM e1 = HAS_GEOM e2" and "HAS_TRIMESH e1 = HAS_TRIMESH e2"
    and "create_shape e1 sp = create_shape e2 sp"
    and "case create_shape e1 sp of
           Inl x \<Rightarrow> True
         | Inr sh \<Rightarrow> trimesh_volume e1 (fst (shape_to_mesh sh)) (snd (shape_to_mesh sh))
                     = trimesh_volume e2 (fst (shape_to_mesh sh)) (snd (shape_to_mesh sh))"
  shows "resolve_space e1 sp = resolve_space e2 sp"
proof -
  have t: "tessellate_space e1 sp = tessellate_space e2 sp"
  proof (cases "create_shape e1 sp")
    case (Inl x)
    then show ?thesis using assms(3) by (simp add: tessellate_space_def)
  next
    case (Inr sh)
    obtain v f where m: "shape_to_mesh sh = (v, f)"
      by (cases "shape_to_mesh sh")
    have vf: "volume_from_mesh e1 v f = volume_from_mesh e2 v f"
      using assms(2,4) Inr m by (intro volume_from_mesh_cong) simp_all
    have c2: "create_shape e2 sp = Inr sh"
      using assms(3) Inr by simp
    show ?thesis
      by (simp add: tessellate_space_def Inr c2 m vf)
  qed
  show ?thesis
    unfolding resolve_space_def t assms(1) ..
qed

lemma net_cong:
  assumes "same_answers e1 e2 m"
  shows "compute_net_volume_spaces e1 m = compute_net_volume_spaces e2 m"
proof -
  have r: "\<And>sp. sp \<in> set (by_type m ''IfcSpace'') \<Longrightarrow> resolve_space e1 sp = resolve_space e2 sp"
    using assms
    by (intro resolve_space_cong)
       (auto simp: same_answers_def queried_entities_def list_all_iff)
  have "map (expected_row e1) (by_type m ''IfcSpace'') = map (expected_row e2) (by_type m ''IfcSpace'')"
    using r by (simp add: expected_row_def)
  moreover have "map (\<lambda>s. fst (resolve_space e1 s)) (by_type m ''IfcSpace'')
      = map (\<lambda>s. fst (resolve_space e2 s)) (by_type m ''IfcSpace'')"
    using r by simp
  ultimately show ?thesis
    by (simp only: prod_eq_iff net_rows net_total)
qed

lemma foldl_add_cong:
  "list_all (\<lambda>e. create_shape e1 e = create_shape e2 e) es \<Longrightarrow>
   foldl (add e1) acc es = foldl (add e2) acc es"
  by (induction es arbitrary: acc) (simp_all add: add_def)

lemma foldl_add_wall_cong:
  "list_all (\<lambda>e. create_shape e1 e = create_shape e2 e) es \<Longrightarrow>
   foldl (add_wall e1) acc es = foldl (add_wall e2) acc es"
  by (induction es arbitrary: acc) (simp_all add: add_wall_def add_def)

lemma collect_cong:
  assumes "same_answers e1 e2 m"
  shows "collect_building_vertices e1 m = collect_building_vertices e2 m"
proof -
  have g: "HAS_GEOM e1 = HAS_GEOM e2"
    and a: "list_all (\<lambda>e. create_shape e1 e = create_shape e2 e) (by_type m ''IfcWallStandardCase'')"
    and b: "list_all (\<lambda>e. create_shape e1 e = create_shape e2 e) (by_type m ''IfcWall'')"
    and c: "list_all (\<lambda>e. create_shape e1 e = create_shape e2 e) (by_type m ''IfcSlab'')"
    and d: "list_all (\<lambda>e. create_shape e1 e = create_shape e2 e) (by_type m ''IfcRoof'')"
    using assms by (simp_all add: same_answers_def queried_entities_def)
  show ?thesis
    unfolding collect_building_vertices_def Let_def
    by (simp only: g foldl_add_wall_cong [OF a] foldl_add_wall_cong [OF b]
        foldl_add_cong [OF c] foldl_add_cong [OF d])
qed

lemma gross_cong:
  assumes "same_answers e1 e2 m"
  shows "compute_gross_volume e1 m = compute_gross_volume e2 m"
proof -
  have c: "collect_building_vertices e1 m = collect_building_vertices e2 m"
    using assms by (rule collect_cong)
  have s: "HAS_SCIPY e1 = HAS_SCIPY e2"
    and h: "hull_volume e1 (collect_building_vertices e1 m)
        = hull_volume e2 (collect_building_vertices e1 m)"
    using assms by (simp_all add: same_answers_def)
  have "hull_block e1 (collect_building_vertices e1 m) = hull_block e2 (collect_building_vertices e2 m)"
    using h c by (simp add: hull_block_def)
  then have gt: "geometry_tier e1 m = geometry_tier e2 m"
    by (simp add: geometry_tier_def Let_def c s)
  show ?thesis
    unfolding compute_gross_volume_def gt ..
qed

lemma open_write_now: "open_write (w\<lparr>now := t\<rparr>) made p = open_write w made p"
  by (simp add: open_write_def Let_def)

text \<open>
  C7 as stated says that two runs on the same model write identical summaries. It fails:
  the first field of the summary row is the time of the run. The same model, libraries and
  arguments at 10:00 and at 10:01 give different summary rows.
\<close>

theorem timestamp_breaks_identity:
  "written (main (world_of (spaces_model [quantity_space]) ''2024-01-01 10:00'') no_libs run_args)
     = [(''results/res_summary.csv'',
         \<lparr>header = summary_header,
          body = [ [Str ''2024-01-01 10:00'', Str ''model.ifc'', Flt 0, Str ''None'',
                   Flt (25 / 2), Cnt 1] ]\<rparr>),
        (''results/res_spaces.csv'',
         \<lparr>header = spaces_header,
          body = [ [Str ''IfcSpace'', Str ''s1'', Str ''s1'', Flt (25 / 2),
                   Str ''Quantity(Net/Volume)''] ]\<rparr>)]
   \<and> written (main (world_of (spaces_model [quantity_space]) ''2024-01-01 10:00'') no_libs run_args)
       \<noteq> written (main (world_of (spaces_model [quantity_space]) ''2024-01-01 10:01'') no_libs
                    run_args)"
  by code_simp

text \<open>
  C7, amended. Take two runs with the same arguments, file system and loaded model, at the
  times \<open>t1\<close> and \<open>t2\<close>, whose libraries give the same answers on the entities, meshes and
  envelope vertices of this model. Both create the same directory and end in the same
  way. Either both write nothing, or both write the same files in the same order, with
  the same per-space table, and summaries that agree in every field except the first,
  which is \<open>t1\<close> in one and \<open>t2\<close> in the other. The outputs are compared field by field,
  as the rows handed to the writer.
\<close>

theorem runs_agree_up_to_timestamp:
  assumes "case open_ifc w (ifc a) of Inl e \<Rightarrow> True | Inr m \<Rightarrow> same_answers env1 env2 m"
  shows "created (main (w\<lparr>now := t1\<rparr>) env1 a) = created (main (w\<lparr>now := t2\<rparr>) env2 a)
         \<and> ended (main (w\<lparr>now := t1\<rparr>) env1 a) = ended (main (w\<lparr>now := t2\<rparr>) env2 a)
         \<and> (written (main (w\<lparr>now := t1\<rparr>) env1 a) = []
              \<and> written (main (w\<lparr>now := t2\<rparr>) env2 a) = []
            \<or> (\<exists>name cells rest.
                 written (main (w\<lparr>now := t1\<rparr>) env1 a)
                   = (name, \<lparr>header = summary_header, body = [Str t1 # cells]\<rparr>) # rest
               \<and> written (main (w\<lparr>now := t2\<rparr>) env2 a)
                   = (name, \<lparr>header = summary_header, body = [Str t2 # cells]\<rparr>) # rest))"
proof (cases "open_ifc w (ifc a)")
  case (Inl e)
  then show ?thesis
    by (simp add: main_def Let_def split: option.splits)
next
  case (Inr m)
  with assms have sa: "same_answers env1 env2 m"
    by simp
  have n: "compute_net_volume_spaces env1 m = compute_net_volume_spaces env2 m"
    using sa by (rule net_cong)
  have g: "compute_gross_volume env1 m = compute_gross_volume env2 m"
    using sa by (rule gross_cong)
  obtain nt rows where nr: "compute_net_volume_spaces env2 m = (nt, rows)"
    by (cases "compute_net_volume_spaces env2 m")
  obtain gt gm where gg: "compute_gross_volume env2 m = Inr (gt, gm)"
    using compute_gross_volume_Inr by blast
  show ?thesis
    using Inr n g nr gg
    by (simp add: main_def Let_def write_reports_def summary_table_def open_write_now
        split: option.splits)
qed

text \<open>
  Three spaces, at 10:00 and at 10:01, with libraries that differ outside the model: the
  runs end alike, write the same two files, and the per-space file is the same.
\<close>

theorem runs_agree_up_to_timestamp_witness:
  "create_shape other_env (bare_entity ''zz'') \<noteq> create_shape kernel_env (bare_entity ''zz'')
   \<and> ended (main (world_of (spaces_model three_spaces) ''2024-01-01 10:00'') kernel_env run_args)
       = ended (main (world_of (spaces_model three_spaces) ''2024-01-01 10:01'') other_env run_args)
   \<and> map fst (written (main (world_of (spaces_model three_spaces) ''2024-01-01 10:00'')
                          kernel_env run_args))
       = map fst (written (main (world_of (spaces_model three_spaces) ''2024-01-01 10:01'')
                            other_env run_args))
   \<and> tl (written (main (world_of (spaces_model three_spaces) ''2024-01-01 10:00'')
                     kernel_env run_args))
       = tl (written (main (world_of (spaces_model three_spaces) ''2024-01-01 10:01'')
                       other_env run_args))
   \<and> length (written (main (world_of (spaces_model three_spaces) ''2024-01-01 10:00'')
                         kernel_env run_args)) = 2"
proof -
  let ?m = "spaces_model three_spaces"
  let ?w = "world_of ?m ''2024-01-01 10:00''"
  have d: "create_shape other_env (bare_entity ''zz'')
      \<noteq> create_shape kernel_env (bare_entity ''zz'')"
    by code_simp
  have sa: "same_answers kernel_env other_env ?m"
    by code_simp
  have o: "open_ifc ?w (ifc run_args) = Inr ?m"
    by (simp add: world_of_def)
  have h: "case open_ifc ?w (ifc run_args) of
             Inl e \<Rightarrow> True | Inr m \<Rightarrow> same_answers kernel_env other_env m"
    unfolding o using sa by simp
  have w1: "?w\<lparr>now := ''2024-01-01 10:00''\<rparr> = ?w"
    and w2: "?w\<lparr>now := ''2024-01-01 10:01''\<rparr> = world_of ?m ''2024-01-01 10:01''"
    by (simp_all add: world_of_def)
  have l: "length (written (main ?w kernel_env run_args)) = 2"
    by code_simp
  from runs_agree_up_to_timestamp [OF h, of "''2024-01-01 10:00''" "''2024-01-01 10:01''"] d l
  show ?thesis
    unfolding w1 w2 by auto
qed

text \<open>
  C10. Take a model without space entity. When the input is a file, creating the output
  directory does not fail and the summary file can be opened, the run ends normally and
  has written exactly one file, the summary, with the net total 0 and the space count 0.
  However the run ends, it writes no per-space table: it has written nothing, or the
  summary alone.
\<close>

theorem no_spaces_no_table:
  assumes "open_ifc w (ifc a) = Inr m"
    and "by_type m ''IfcSpace'' = []"
  shows "(isfile w (ifc a)
            \<and> (dirname (outfile a) \<noteq> [] \<and> \<not> path_exists w (dirname (outfile a)) \<longrightarrow>
                 makedirs_error w (dirname (outfile a)) = None)
            \<and> open_write w
                 (if dirname (outfile a) \<noteq> [] \<and> \<not> path_exists w (dirname (outfile a))
                  then Some (dirname (outfile a)) else None)
                 (replace_csv 0 ''_summary.csv'' (outfile a)) = None \<longrightarrow>
          (\<exists>g gm. compute_gross_volume env m = Inr (g, gm)
             \<and> ended (main w env a) = None
             \<and> written (main w env a)
                 = [(replace_csv 0 ''_summary.csv'' (outfile a),
                     \<lparr>header = summary_header,
                      body = [ [Str (now w), Str (basename (ifc a)), Flt (round3 g), Str gm,
                               Flt 0, Cnt 0] ]\<rparr>)]))
         \<and> (written (main w env a) = []
            \<or> (\<exists>t. written (main w env a) = [(replace_csv 0 ''_summary.csv'' (outfile a), t)]
                  \<and> header t = summary_header))"
proof -
  obtain g gm where g: "compute_gross_volume env m = Inr (g, gm)"
    using compute_gross_volume_Inr by blast
  have n: "compute_net_volume_spaces env m = (0, [])"
    using assms(2) by (simp add: compute_net_volume_spaces_def)
  have a: "isfile w (ifc a)
            \<and> (dirname (outfile a) \<noteq> [] \<and> \<not> path_exists w (dirname (outfile a)) \<longrightarrow>
                 makedirs_error w (dirname (outfile a)) = None)
            \<and> open_write w
                 (if dirname (outfile a) \<noteq> [] \<and> \<not> path_exists w (dirname (outfile a))
                  then Some (dirname (outfile a)) else None)
                 (replace_csv 0 ''_summary.csv'' (outfile a)) = None \<longrightarrow>
          (\<exists>g gm. compute_gross_volume env m = Inr (g, gm)
             \<and> ended (main w env a) = None
             \<and> written (main w env a)
                 = [(replace_csv 0 ''_summary.csv'' (outfile a),
                     \<lparr>header = summary_header,
                      body = [ [Str (now w), Str (basename (ifc a)), Flt (round3 g), Str gm,
                               Flt 0, Cnt 0] ]\<rparr>)])"
    using assms(1) g n
    by (auto simp: main_def Let_def write_reports_def summary_table_def round3_0
        split: option.splits if_splits)
  have b: "written (main w env a) = []
            \<or> (\<exists>t. written (main w env a) = [(replace_csv 0 ''_summary.csv'' (outfile a), t)]
                  \<and> header t = summary_header)"
    using assms(1) g n
    by (auto simp: main_def Let_def write_reports_def summary_table_def
        split: option.splits if_splits)
  from a b show ?thesis by blast
qed

text \<open>
  The empty model with the output \<open>results/res.csv\<close>: the directory is created and the
  summary is the one file. With the output \<open>out.csv.d/res.csv\<close> the directory
  \<open>out.csv.d\<close> is created, the summary is to go to \<open>out_summary.csv.d\<close>, which does not
  exist, and nothing is written.
\<close>

theorem no_spaces_no_table_witness:
  "main (world_of (typed_model []) ''2024-01-01 10:00'') no_libs run_args
     = \<lparr>created = Some ''results'', ended = None,
        written = [(''results/res_summary.csv'',
                    \<lparr>header = summary_header,
                     body = [ [Str ''2024-01-01 10:00'', Str ''model.ifc'', Flt 0, Str ''None'',
                              Flt 0, Cnt 0] ]\<rparr>)]\<rparr>
   \<and> main (world_of (typed_model []) ''2024-01-01 10:00'') no_libs nested_args
     = \<lparr>created = Some ''out.csv.d'', ended = Some (Uncaught FileNotFoundError), written = []\<rparr>"
proof -
  let ?w = "world_of (typed_model []) ''2024-01-01 10:00''"
  have a1: "open_ifc ?w (ifc run_args) = Inr (typed_model [])"
    by (simp add: world_of_def)
  have a2: "by_type (typed_model []) ''IfcSpace'' = []"
    by code_simp
  have c: "created (main ?w no_libs run_args) = Some ''results''"
    by code_simp
  have h: "isfile ?w (ifc run_args)
            \<and> (dirname (outfile run_args) \<noteq> [] \<and> \<not> path_exists ?w (dirname (outfile run_args)) \<longrightarrow>
                 makedirs_error ?w (dirname (outfile run_args)) = None)
            \<and> open_write ?w
                 (if dirname (outfile run_args) \<noteq> []
                     \<and> \<not> path_exists ?w (dirname (outfile run_args))
                  then Some (dirname (outfile run_args)) else None)
                 (replace_csv 0 ''_summary.csv'' (outfile run_args)) = None"
    by code_simp
  have g: "compute_gross_volume no_libs (typed_model []) = Inr (0, ''None'')"
    by code_simp
  have e: "replace_csv 0 ''_summary.csv'' (outfile run_args) = ''results/res_summary.csv''
      \<and> now ?w = ''2024-01-01 10:00'' \<and> basename (ifc run_args) = ''model.ifc''"
    by code_simp
  have v: "main ?w no_libs nested_args
     = \<lparr>created = Some ''out.csv.d'', ended = Some (Uncaught FileNotFoundError), written = []\<rparr>"
    by code_simp
  from no_spaces_no_table [OF a1 a2, of no_libs] h c g e
  have "ended (main ?w no_libs run_args) = None
      \<and> written (main ?w no_libs run_args)
          = [(''results/res_summary.csv'',
                    \<lparr>header = summary_header,
                     body = [ [Str ''2024-01-01 10:00'', Str ''model.ifc'', Flt 0, Str ''None'',
                              Flt 0, Cnt 0] ]\<rparr>)]"
    by (auto simp: round3_0)
  with c v show ?thesis
    by (cases "main ?w no_libs run_args") simp
qed

end
